theory Spec2Isabelle
  imports Complex_Main
begin

section \<open>Python values, exceptions and references\<close>

text \<open>
  A Python \<open>str\<close> is a sequence of Unicode code points, \<open>bytes\<close> a sequence of
  integers below 256. Both are lists of naturals here; the codec below refuses a code
  point or a byte that is out of range.
\<close>

type_synonym codepoint = nat
type_synonym pystr = "codepoint list"
type_synonym byte = nat

definition str_lit :: "string \<Rightarrow> pystr" where
  "str_lit s = map of_char s"

text \<open>
  Objects that live in a client library (sessions, cursors, buckets, response streams)
  are opaque references. A library hands out a fresh \<open>Ref\<close>, or names a sub-resource
  of a reference it already gave: \<open>client[db_name]\<close>, \<open>db[collection_name]\<close>,
  \<open>s3.Bucket(name)\<close> and \<open>bucket.Object(key)\<close> build such a name locally and
  contact no store.
\<close>

datatype handle = Ref nat | Child handle pystr

text \<open>
  A \<open>float\<close> is an IEEE-754 binary64 value: a finite number, one of the two
  infinities, or a NaN. The finite values are the reals the format holds. The two zeros
  are one value here: they compare equal and no operation of this program tells them
  apart.
\<close>

datatype pyfloat = Finite real | PosInf | NegInf | NaN

text \<open>
  The values the adapters are handed. \<open>PUserString\<close> is an instance of
  \<open>collections.UserString\<close>, the standard library's wrapper around a \<open>str\<close>: it
  is no \<open>str\<close> (\<open>isinstance(x, str)\<close> is false) and it holds the text it wraps.
\<close>

datatype pyval =
    PNone
  | PBool bool
  | PInt int
  | PFloat pyfloat
  | PStr pystr
  | PBytes "byte list"
  | PTuple "pyval list"
  | PList "pyval list"
  | PDict "(pyval \<times> pyval) list"
  | PObj handle
  | PUserString pystr

text \<open>
  The exceptions the adapters can meet. \<open>StoreError\<close> stands for any exception class
  of a Store Client, named by the client.
\<close>

datatype error =
    NotImplementedError
  | AttributeError
  | TypeError
  | KeyError
  | UnicodeEncodeError
  | UnicodeDecodeError
  | OverflowError
  | ZeroDivisionError
  | StoreError string

section \<open>Arithmetic of Python's numbers\<close>

text \<open>
  An \<open>int\<close> is unbounded and its \<open>-\<close> and \<open>*\<close> are exact. A \<open>float\<close>
  operation returns the exact result rounded to the nearest binary64 value, ties going
  to the even significand; a rounded result of magnitude \<open>2 ^ 1024\<close> or more is an
  infinity.

  \<open>binade x\<close> is the exponent \<open>e\<close> with \<open>2 ^ e \<le> |x| < 2 ^ (e + 1)\<close>, held at
  \<open>- 1022\<close> for the subnormal numbers; with 53 bits of significand the representable
  values around \<open>x\<close> are \<open>ulp x\<close> apart.
\<close>

definition binade :: "real \<Rightarrow> int" where
  "binade x = max \<lfloor>log 2 \<bar>x\<bar>\<rfloor> (- 1022)"

definition ulp :: "real \<Rightarrow> real" where
  "ulp x = 2 powi (binade x - 52)"

definition round_half_even :: "real \<Rightarrow> int" where
  "round_half_even m =
     (let f = \<lfloor>m\<rfloor>
      in if m - of_int f < 1 / 2 then f
         else if 1 / 2 < m - of_int f then f + 1
         else if even f then f else f + 1)"

definition round_double :: "real \<Rightarrow> pyfloat" where
  "round_double x =
     (if x = 0 then Finite 0
      else (let r = of_int (round_half_even (x / ulp x)) * ulp x
            in if 2 ^ 1024 \<le> \<bar>r\<bar> then (if 0 < x then PosInf else NegInf) else Finite r))"

text \<open>
  The operations of \<open>float\<close>. A NaN operand gives a NaN; so do
  \<open>inf - inf\<close>, \<open>inf * 0\<close> and \<open>inf / inf\<close>. No \<open>float\<close> operation raises
  on overflow; \<open>/\<close> raises \<open>ZeroDivisionError\<close> on a zero divisor, whatever the
  dividend.
\<close>

definition negative :: "pyfloat \<Rightarrow> bool" where
  "negative a = (case a of Finite x \<Rightarrow> x < 0 | NegInf \<Rightarrow> True | _ \<Rightarrow> False)"

fun float_sub :: "pyfloat \<Rightarrow> pyfloat \<Rightarrow> pyfloat" where
  "float_sub (Finite x) (Finite y) = round_double (x - y)"
| "float_sub NaN b = NaN"
| "float_sub a NaN = NaN"
| "float_sub PosInf PosInf = NaN"
| "float_sub NegInf NegInf = NaN"
| "float_sub PosInf b = PosInf"
| "float_sub NegInf b = NegInf"
| "float_sub (Finite x) PosInf = NegInf"
| "float_sub (Finite x) NegInf = PosInf"

fun float_mul :: "pyfloat \<Rightarrow> pyfloat \<Rightarrow> pyfloat" where
  "float_mul (Finite x) (Finite y) = round_double (x * y)"
| "float_mul NaN b = NaN"
| "float_mul a NaN = NaN"
| "float_mul (Finite x) b =
     (if x = 0 then NaN else if (x < 0) = negative b then PosInf else NegInf)"
| "float_mul a (Finite y) =
     (if y = 0 then NaN else if negative a = (y < 0) then PosInf else NegInf)"
| "float_mul a b = (if negative a = negative b then PosInf else NegInf)"

fun float_truediv :: "pyfloat \<Rightarrow> pyfloat \<Rightarrow> error + pyfloat" where
  "float_truediv a (Finite y) =
     (if y = 0 then Inl ZeroDivisionError
      else Inr (case a of
                  Finite x \<Rightarrow> round_double (x / y)
                | NaN \<Rightarrow> NaN
                | _ \<Rightarrow> if negative a = (y < 0) then PosInf else NegInf))"
| "float_truediv a NaN = Inr NaN"
| "float_truediv (Finite x) b = Inr (Finite 0)"
| "float_truediv a b = Inr NaN"

text \<open>
  An \<open>int\<close> operand of a \<open>float\<close> operation is converted first, to the nearest
  \<open>float\<close>, and the conversion raises \<open>OverflowError\<close> when that is no finite
  value. \<open>int / int\<close> is true division: the exact quotient rounded once to the
  nearest \<open>float\<close>, \<open>OverflowError\<close> when that is no finite value.
\<close>

definition float_of_int :: "int \<Rightarrow> error + pyfloat" where
  "float_of_int k =
     (case round_double (of_int k) of Finite r \<Rightarrow> Inr (Finite r) | _ \<Rightarrow> Inl OverflowError)"

definition int_truediv :: "int \<Rightarrow> int \<Rightarrow> error + pyfloat" where
  "int_truediv n k =
     (if k = 0 then Inl ZeroDivisionError
      else case round_double (of_int n / of_int k) of
             Finite r \<Rightarrow> Inr (Finite r)
           | _ \<Rightarrow> Inl OverflowError)"

text \<open>
  The expressions \<open>x - k\<close>, \<open>x * k\<close> and \<open>x / k\<close> for an \<open>int\<close> \<open>k\<close>. Of
  the values above the numbers are the \<open>int\<close>, the \<open>bool\<close> (a subclass of
  \<open>int\<close>: \<open>True\<close> is 1) and the \<open>float\<close>; \<open>-\<close> with any other of them
  on the left raises \<open>TypeError\<close>.
\<close>

datatype number = NInt int | NFloat pyfloat

definition as_number :: "pyval \<Rightarrow> number option" where
  "as_number v =
     (case v of
        PInt n \<Rightarrow> Some (NInt n)
      | PBool b \<Rightarrow> Some (NInt (if b then 1 else 0))
      | PFloat f \<Rightarrow> Some (NFloat f)
      | _ \<Rightarrow> None)"

definition py_sub :: "pyval \<Rightarrow> int \<Rightarrow> error + number" where
  "py_sub v k =
     (case as_number v of
        None \<Rightarrow> Inl TypeError
      | Some (NInt n) \<Rightarrow> Inr (NInt (n - k))
      | Some (NFloat f) \<Rightarrow>
          (case float_of_int k of Inl e \<Rightarrow> Inl e | Inr g \<Rightarrow> Inr (NFloat (float_sub f g))))"

definition py_mul :: "number \<Rightarrow> int \<Rightarrow> error + number" where
  "py_mul x k =
     (case x of
        NInt n \<Rightarrow> Inr (NInt (n * k))
      | NFloat f \<Rightarrow>
          (case float_of_int k of Inl e \<Rightarrow> Inl e | Inr g \<Rightarrow> Inr (NFloat (float_mul f g))))"

definition py_truediv :: "number \<Rightarrow> int \<Rightarrow> error + number" where
  "py_truediv x k =
     (case x of
        NInt n \<Rightarrow> (case int_truediv n k of Inl e \<Rightarrow> Inl e | Inr q \<Rightarrow> Inr (NFloat q))
      | NFloat f \<Rightarrow>
          (case float_of_int k of
             Inl e \<Rightarrow> Inl e
           | Inr g \<Rightarrow> (case float_truediv f g of Inl e \<Rightarrow> Inl e | Inr q \<Rightarrow> Inr (NFloat q))))"

section \<open>Structural/Adapter-Pattern: the unit-conversion adapter\<close>

text \<open>
  \<^verbatim>\<open>
  class CelsiusTemperatureSensor:
      def __init__(self, temperature): self.temperature = temperature
      def get_temperature(self): return self.temperature
  class FahrenheitTemperatureSensor:      (the same two methods)
  class TemperatureSensorAdapter:
      def __init__(self, fahrenheit_sensor): self.fahrenheit_sensor = fahrenheit_sensor
      def get_temperature(self):
          temperature_in_fahrenheit = self.fahrenheit_sensor.get_temperature()
          return (temperature_in_fahrenheit - 32) * 5 / 9
  \<close>
  Sensor objects are mutable and shared: they live in a heap, and the adapter's field
  holds the address of the sensor it wraps. A sensor holds whatever value it was
  constructed with; the adapter's arithmetic is Python's, on that value.
\<close>

datatype sensor =
    CelsiusTemperatureSensor (temperature: pyval)
  | FahrenheitTemperatureSensor (temperature: pyval)

type_synonym addr = nat
type_synonym sensor_heap = "addr \<Rightarrow> sensor"

fun get_temperature :: "sensor \<Rightarrow> pyval" where
  "get_temperature (CelsiusTemperatureSensor t) = t"
| "get_temperature (FahrenheitTemperatureSensor t) = t"

definition set_temperature :: "addr \<Rightarrow> pyval \<Rightarrow> sensor_heap \<Rightarrow> sensor_heap" where
  \<comment> \<open>the attribute assignment \<open>sensor.temperature = t\<close>, open to any holder of the sensor\<close>
  "set_temperature a t h =
     h(a := (case h a of
               CelsiusTemperatureSensor _ \<Rightarrow> CelsiusTemperatureSensor t
             | FahrenheitTemperatureSensor _ \<Rightarrow> FahrenheitTemperatureSensor t))"

record TemperatureSensorAdapter =
  fahrenheit_sensor :: addr

definition TemperatureSensorAdapter_init :: "addr \<Rightarrow> TemperatureSensorAdapter" where
  "TemperatureSensorAdapter_init a = \<lparr>fahrenheit_sensor = a\<rparr>"

text \<open>
  A method returns its value or the exception it raises, the instance as the call
  leaves it, and the heap.
\<close>

definition TemperatureSensorAdapter_get_temperature ::
  "TemperatureSensorAdapter \<Rightarrow> sensor_heap
     \<Rightarrow> (error + number) \<times> TemperatureSensorAdapter \<times> sensor_heap" where
  "TemperatureSensorAdapter_get_temperature self h =
     (let temperature_in_fahrenheit = get_temperature (h (fahrenheit_sensor self))
      in case py_sub temperature_in_fahrenheit 32 of
           Inl e \<Rightarrow> (Inl e, self, h)
         | Inr offset \<Rightarrow>
             (case py_mul offset 5 of
                Inl e \<Rightarrow> (Inl e, self, h)
              | Inr scaled \<Rightarrow>
                  (case py_truediv scaled 9 of
                     Inl e \<Rightarrow> (Inl e, self, h)
                   | Inr celsius \<Rightarrow> (Inr celsius, self, h))))"

section \<open>Principles/Adapter-Pattern: the unified interface\<close>

text \<open>
  A method of an adapter runs against the world \<open>'w\<close> of its Store Client and returns
  the value or the exception, the instance as the call leaves it, and the world as the
  call leaves it (also when it raises).
\<close>

type_synonym ('s, 'w) method_result = "(error + pyval) \<times> 's \<times> 'w"

definition DataStoreAdapter_read_data :: "'s \<Rightarrow> pystr \<Rightarrow> 'w \<Rightarrow> ('s, 'w) method_result" where
  "DataStoreAdapter_read_data self identifier w = (Inl NotImplementedError, self, w)"

definition DataStoreAdapter_write_data ::
  "'s \<Rightarrow> pystr \<Rightarrow> pyval \<Rightarrow> 'w \<Rightarrow> ('s, 'w) method_result" where
  "DataStoreAdapter_write_data self identifier data w = (Inl NotImplementedError, self, w)"

text \<open>
  A class derived from \<open>DataStoreAdapter\<close> is the pair of the methods it overrides;
  a call resolves to the override when there is one and to the base method otherwise.
\<close>

record ('s, 'w) adapter_class =
  read_data_override :: "('s \<Rightarrow> pystr \<Rightarrow> 'w \<Rightarrow> ('s, 'w) method_result) option"
  write_data_override :: "('s \<Rightarrow> pystr \<Rightarrow> pyval \<Rightarrow> 'w \<Rightarrow> ('s, 'w) method_result) option"

definition read_data ::
  "('s, 'w) adapter_class \<Rightarrow> 's \<Rightarrow> pystr \<Rightarrow> 'w \<Rightarrow> ('s, 'w) method_result" where
  "read_data cls =
     (case read_data_override cls of None \<Rightarrow> DataStoreAdapter_read_data | Some m \<Rightarrow> m)"

definition write_data ::
  "('s, 'w) adapter_class \<Rightarrow> 's \<Rightarrow> pystr \<Rightarrow> pyval \<Rightarrow> 'w \<Rightarrow> ('s, 'w) method_result" where
  "write_data cls =
     (case write_data_override cls of None \<Rightarrow> DataStoreAdapter_write_data | Some m \<Rightarrow> m)"

definition DataStoreAdapter_class :: "('s, 'w) adapter_class" where
  "DataStoreAdapter_class = \<lparr>read_data_override = None, write_data_override = None\<rparr>"

section \<open>Built-in operations of Python the adapters call\<close>

subsection \<open>\<open>str.encode('utf-8')\<close> and \<open>bytes.decode('utf-8')\<close>\<close>

text \<open>
  The strict UTF-8 codec: a lone surrogate (U+D800 to U+DFFF) does not encode, and a
  byte sequence that is truncated, overlong, a surrogate or beyond U+10FFFF does not
  decode.
\<close>

definition encode_codepoint :: "codepoint \<Rightarrow> byte list option" where
  "encode_codepoint c =
     (if c < 0x80 then Some [c]
      else if c < 0x800 then Some [0xC0 + c div 64, 0x80 + c mod 64]
      else if 0xD800 \<le> c \<and> c < 0xE000 then None
      else if c < 0x10000 then
        Some [0xE0 + c div 4096, 0x80 + c div 64 mod 64, 0x80 + c mod 64]
      else if c < 0x110000 then
        Some [0xF0 + c div 262144, 0x80 + c div 4096 mod 64, 0x80 + c div 64 mod 64,
              0x80 + c mod 64]
      else None)"

fun utf8_encode :: "pystr \<Rightarrow> error + byte list" where
  "utf8_encode [] = Inr []"
| "utf8_encode (c # cs) =
     (case encode_codepoint c of
        None \<Rightarrow> Inl UnicodeEncodeError
      | Some bs \<Rightarrow> (case utf8_encode cs of Inl e \<Rightarrow> Inl e | Inr r \<Rightarrow> Inr (bs @ r)))"

definition continuation :: "byte \<Rightarrow> bool" where
  "continuation b = (0x80 \<le> b \<and> b < 0xC0)"

definition decoded :: "codepoint \<Rightarrow> error + pystr \<Rightarrow> error + pystr" where
  "decoded c r = (case r of Inl e \<Rightarrow> Inl e | Inr s \<Rightarrow> Inr (c # s))"

fun utf8_decode :: "byte list \<Rightarrow> error + pystr" where
  "utf8_decode [] = Inr []"
| "utf8_decode (b0 # bs) =
     (if b0 < 0x80 then decoded b0 (utf8_decode bs)
      else if 0xC2 \<le> b0 \<and> b0 < 0xE0 then
        (case bs of
           b1 # r \<Rightarrow>
             if continuation b1
             then decoded ((b0 - 0xC0) * 64 + (b1 - 0x80)) (utf8_decode r)
             else Inl UnicodeDecodeError
         | _ \<Rightarrow> Inl UnicodeDecodeError)
      else if 0xE0 \<le> b0 \<and> b0 < 0xF0 then
        (case bs of
           b1 # b2 # r \<Rightarrow>
             (let c = (b0 - 0xE0) * 4096 + (b1 - 0x80) * 64 + (b2 - 0x80)
              in if continuation b1 \<and> continuation b2 \<and> 0x800 \<le> c
                    \<and> (c < 0xD800 \<or> 0xE000 \<le> c)
                 then decoded c (utf8_decode r)
                 else Inl UnicodeDecodeError)
         | _ \<Rightarrow> Inl UnicodeDecodeError)
      else if 0xF0 \<le> b0 \<and> b0 < 0xF5 then
        (case bs of
           b1 # b2 # b3 # r \<Rightarrow>
             (let c = (b0 - 0xF0) * 262144 + (b1 - 0x80) * 4096 + (b2 - 0x80) * 64
                      + (b3 - 0x80)
              in if continuation b1 \<and> continuation b2 \<and> continuation b3
                    \<and> 0x10000 \<le> c \<and> c < 0x110000
                 then decoded c (utf8_decode r)
                 else Inl UnicodeDecodeError)
         | _ \<Rightarrow> Inl UnicodeDecodeError)
      else Inl UnicodeDecodeError)"

text \<open>
  \<open>data.encode('utf-8')\<close> and \<open>content.decode('utf-8')\<close> are attribute lookups
  first, on whatever object they are given; no type is checked. Of the values above a
  \<open>str\<close> and a \<open>UserString\<close> have \<open>encode\<close> (\<open>UserString.encode\<close> encodes
  the text it wraps), and only \<open>bytes\<close> has \<open>decode\<close>. A value without the
  attribute raises \<open>AttributeError\<close>.
\<close>

definition has_encode :: "pyval \<Rightarrow> bool" where
  "has_encode v = (case v of PStr _ \<Rightarrow> True | PUserString _ \<Rightarrow> True | _ \<Rightarrow> False)"

definition py_encode_utf8 :: "pyval \<Rightarrow> error + byte list" where
  "py_encode_utf8 v =
     (case v of
        PStr s \<Rightarrow> utf8_encode s
      | PUserString s \<Rightarrow> utf8_encode s
      | _ \<Rightarrow> Inl AttributeError)"

definition py_decode_utf8 :: "pyval \<Rightarrow> error + pystr" where
  "py_decode_utf8 v = (case v of PBytes bs \<Rightarrow> utf8_decode bs | _ \<Rightarrow> Inl AttributeError)"

text \<open>
  \<open>response['Body']\<close>: subscription with a \<open>str\<close> key. A dict looks the key up
  by hash and equality: the keys that equal a \<open>str\<close> are that \<open>str\<close> and a
  \<open>UserString\<close> wrapping it, and the last binding of a key is the one a dict holds.
  No other value above accepts a \<open>str\<close> subscript.
\<close>

definition str_key :: "pyval \<Rightarrow> pystr option" where
  "str_key v = (case v of PStr s \<Rightarrow> Some s | PUserString s \<Rightarrow> Some s | _ \<Rightarrow> None)"

definition py_getitem :: "pyval \<Rightarrow> pystr \<Rightarrow> error + pyval" where
  "py_getitem v k =
     (case v of
        PDict kvs \<Rightarrow>
          (case map_of (rev (map (\<lambda>kv. (str_key (fst kv), snd kv)) kvs)) (Some k) of
             None \<Rightarrow> Inl KeyError
           | Some x \<Rightarrow> Inr x)
      | _ \<Rightarrow> Inl TypeError)"

definition is_str :: "pyval \<Rightarrow> bool" where
  "is_str v = (case v of PStr _ \<Rightarrow> True | _ \<Rightarrow> False)"

section \<open>The Store Clients, as the adapters see them\<close>

text \<open>
  Each client library is a record of its entry points. A call takes the world of the
  store and returns the value or the exception together with the world it leaves.
\<close>

type_synonym ('w, 'a) client_call = "'w \<Rightarrow> (error + 'a) \<times> 'w"

record 'w mysql_connector =
  mysql_connect :: "pyval \<Rightarrow> ('w, handle) client_call"
  mysql_cursor :: "handle \<Rightarrow> ('w, handle) client_call"
  mysql_execute :: "handle \<Rightarrow> pystr \<Rightarrow> pyval option \<Rightarrow> ('w, pyval) client_call"
  mysql_fetchall :: "handle \<Rightarrow> ('w, pyval) client_call"
  mysql_commit :: "handle \<Rightarrow> ('w, pyval) client_call"
  mysql_rollback :: "handle \<Rightarrow> ('w, pyval) client_call"

record 'w pymongo =
  mongo_MongoClient :: "pystr \<Rightarrow> ('w, handle) client_call"
  mongo_find :: "handle \<Rightarrow> pyval \<Rightarrow> ('w, handle) client_call"
  mongo_list :: "handle \<Rightarrow> ('w, pyval list) client_call"
  mongo_insert_one :: "handle \<Rightarrow> pyval \<Rightarrow> ('w, pyval) client_call"

record 'w boto3 =
  s3_resource :: "pystr \<Rightarrow> ('w, handle) client_call"
  s3_get :: "handle \<Rightarrow> ('w, pyval) client_call"
  s3_read :: "handle \<Rightarrow> ('w, pyval) client_call"
  s3_put :: "handle \<Rightarrow> byte list \<Rightarrow> ('w, pyval) client_call"

section \<open>Principles/Adapter-Pattern: the three adapters\<close>

subsection \<open>MySQLAdapter\<close>

record MySQLAdapter =
  connection :: handle
  cursor :: handle

text \<open>\<open>connect(**connection_details)\<close> unpacks a mapping with \<open>str\<close> keys.\<close>

definition keyword_arguments :: "pyval \<Rightarrow> bool" where
  "keyword_arguments v =
     (case v of PDict kvs \<Rightarrow> list_all (\<lambda>kv. is_str (fst kv)) kvs | _ \<Rightarrow> False)"

definition MySQLAdapter_init ::
  "'w mysql_connector \<Rightarrow> pyval \<Rightarrow> 'w \<Rightarrow> (error + MySQLAdapter) \<times> 'w" where
  "MySQLAdapter_init cl connection_details w =
     (if keyword_arguments connection_details then
        (case mysql_connect cl connection_details w of
           (Inl e, w1) \<Rightarrow> (Inl e, w1)
         | (Inr c, w1) \<Rightarrow>
             (case mysql_cursor cl c w1 of
                (Inl e, w2) \<Rightarrow> (Inl e, w2)
              | (Inr k, w2) \<Rightarrow> (Inr \<lparr>connection = c, cursor = k\<rparr>, w2)))
      else (Inl TypeError, w))"

definition select_statement :: "pystr \<Rightarrow> pystr" where
  \<comment> \<open>\<open>f"SELECT * FROM {table_name}"\<close>\<close>
  "select_statement table_name = str_lit ''SELECT * FROM '' @ table_name"

definition insert_statement :: "pystr \<Rightarrow> pystr" where
  \<comment> \<open>\<open>f"INSERT INTO {table_name} VALUES (%s, %s, %s)"\<close>\<close>
  "insert_statement table_name =
     str_lit ''INSERT INTO '' @ table_name @ str_lit '' VALUES (%s, %s, %s)''"

definition MySQLAdapter_read_data ::
  "'w mysql_connector \<Rightarrow> MySQLAdapter \<Rightarrow> pystr \<Rightarrow> 'w \<Rightarrow> (MySQLAdapter, 'w) method_result" where
  "MySQLAdapter_read_data cl self table_name w =
     (case mysql_execute cl (cursor self) (select_statement table_name) None w of
        (Inl e, w1) \<Rightarrow> (Inl e, self, w1)
      | (Inr _, w1) \<Rightarrow>
          (case mysql_fetchall cl (cursor self) w1 of (r, w2) \<Rightarrow> (r, self, w2)))"

definition MySQLAdapter_write_data ::
  "'w mysql_connector \<Rightarrow> MySQLAdapter \<Rightarrow> pystr \<Rightarrow> pyval \<Rightarrow> 'w
     \<Rightarrow> (MySQLAdapter, 'w) method_result" where
  "MySQLAdapter_write_data cl self table_name data w =
     (case mysql_execute cl (cursor self) (insert_statement table_name) (Some data) w of
        (Inl e, w1) \<Rightarrow> (Inl e, self, w1)
      | (Inr _, w1) \<Rightarrow>
          (case mysql_commit cl (connection self) w1 of
             (Inl e, w2) \<Rightarrow> (Inl e, self, w2)
           | (Inr _, w2) \<Rightarrow> (Inr PNone, self, w2)))"

subsection \<open>MongoDBAdapter\<close>

record MongoDBAdapter =
  client :: handle
  db :: handle

definition MongoDBAdapter_init ::
  "'w pymongo \<Rightarrow> pystr \<Rightarrow> pystr \<Rightarrow> 'w \<Rightarrow> (error + MongoDBAdapter) \<times> 'w" where
  "MongoDBAdapter_init cl connection_uri db_name w =
     (case mongo_MongoClient cl connection_uri w of
        (Inl e, w1) \<Rightarrow> (Inl e, w1)
      | (Inr c, w1) \<Rightarrow> (Inr \<lparr>client = c, db = Child c db_name\<rparr>, w1))"

definition MongoDBAdapter_read_data ::
  "'w pymongo \<Rightarrow> MongoDBAdapter \<Rightarrow> pystr \<Rightarrow> 'w \<Rightarrow> (MongoDBAdapter, 'w) method_result" where
  "MongoDBAdapter_read_data cl self collection_name w =
     (let collection = Child (db self) collection_name
      in case mongo_find cl collection (PDict []) w of
           (Inl e, w1) \<Rightarrow> (Inl e, self, w1)
         | (Inr found, w1) \<Rightarrow>
             (case mongo_list cl found w1 of
                (Inl e, w2) \<Rightarrow> (Inl e, self, w2)
              | (Inr docs, w2) \<Rightarrow> (Inr (PList docs), self, w2)))"

definition MongoDBAdapter_write_data ::
  "'w pymongo \<Rightarrow> MongoDBAdapter \<Rightarrow> pystr \<Rightarrow> pyval \<Rightarrow> 'w
     \<Rightarrow> (MongoDBAdapter, 'w) method_result" where
  "MongoDBAdapter_write_data cl self collection_name data w =
     (let collection = Child (db self) collection_name
      in case mongo_insert_one cl collection data w of
           (Inl e, w1) \<Rightarrow> (Inl e, self, w1)
         | (Inr _, w1) \<Rightarrow> (Inr PNone, self, w1))"

subsection \<open>S3Adapter\<close>

record S3Adapter =
  s3 :: handle
  bucket :: handle

definition S3Adapter_init ::
  "'w boto3 \<Rightarrow> pystr \<Rightarrow> 'w \<Rightarrow> (error + S3Adapter) \<times> 'w" where
  "S3Adapter_init cl bucket_name w =
     (case s3_resource cl (str_lit ''s3'') w of
        (Inl e, w1) \<Rightarrow> (Inl e, w1)
      | (Inr r, w1) \<Rightarrow> (Inr \<lparr>s3 = r, bucket = Child r bucket_name\<rparr>, w1))"

text \<open>
  \<open>obj.get()['Body'].read().decode('utf-8')\<close>: the request, the subscription of its
  response, the read of the body (a method of a client object only) and the decoding.
\<close>

definition S3Adapter_read_data ::
  "'w boto3 \<Rightarrow> S3Adapter \<Rightarrow> pystr \<Rightarrow> 'w \<Rightarrow> (S3Adapter, 'w) method_result" where
  "S3Adapter_read_data cl self file_name w =
     (let obj = Child (bucket self) file_name
      in case s3_get cl obj w of
           (Inl e, w1) \<Rightarrow> (Inl e, self, w1)
         | (Inr response, w1) \<Rightarrow>
             (case py_getitem response (str_lit ''Body'') of
                Inl e \<Rightarrow> (Inl e, self, w1)
              | Inr (PObj body) \<Rightarrow>
                  (case s3_read cl body w1 of
                     (Inl e, w2) \<Rightarrow> (Inl e, self, w2)
                   | (Inr content, w2) \<Rightarrow>
                       (case py_decode_utf8 content of
                          Inl e \<Rightarrow> (Inl e, self, w2)
                        | Inr text \<Rightarrow> (Inr (PStr text), self, w2)))
              | Inr _ \<Rightarrow> (Inl AttributeError, self, w1)))"

text \<open>
  \<open>obj.put(Body=data.encode('utf-8'))\<close>: the argument is evaluated before the call.
\<close>

definition S3Adapter_write_data ::
  "'w boto3 \<Rightarrow> S3Adapter \<Rightarrow> pystr \<Rightarrow> pyval \<Rightarrow> 'w \<Rightarrow> (S3Adapter, 'w) method_result" where
  "S3Adapter_write_data cl self file_name data w =
     (let obj = Child (bucket self) file_name
      in case py_encode_utf8 data of
           Inl e \<Rightarrow> (Inl e, self, w)
         | Inr body \<Rightarrow>
             (case s3_put cl obj body w of
                (Inl e, w1) \<Rightarrow> (Inl e, self, w1)
              | (Inr _, w1) \<Rightarrow> (Inr PNone, self, w1)))"

subsection \<open>The three adapters as classes of the unified interface\<close>

definition MySQLAdapter_class :: "'w mysql_connector \<Rightarrow> (MySQLAdapter, 'w) adapter_class" where
  "MySQLAdapter_class cl =
     \<lparr>read_data_override = Some (MySQLAdapter_read_data cl),
      write_data_override = Some (MySQLAdapter_write_data cl)\<rparr>"

definition MongoDBAdapter_class :: "'w pymongo \<Rightarrow> (MongoDBAdapter, 'w) adapter_class" where
  "MongoDBAdapter_class cl =
     \<lparr>read_data_override = Some (MongoDBAdapter_read_data cl),
      write_data_override = Some (MongoDBAdapter_write_data cl)\<rparr>"

definition S3Adapter_class :: "'w boto3 \<Rightarrow> (S3Adapter, 'w) adapter_class" where
  "S3Adapter_class cl =
     \<lparr>read_data_override = Some (S3Adapter_read_data cl),
      write_data_override = Some (S3Adapter_write_data cl)\<rparr>"

section \<open>Observing the calls an adapter makes\<close>

text \<open>
  A recording client wraps any client: every call is forwarded unchanged and appended
  to a log that is carried with the world. What an adapter asks of its Store Client is
  then what the log gains.
\<close>

datatype client_request =
    Connect pyval
  | Cursor handle
  | Execute handle pystr "pyval option"
  | Fetchall handle
  | Commit handle
  | Rollback handle
  | MongoClient pystr
  | Find handle pyval
  | ListCursor handle
  | InsertOne handle pyval
  | Resource pystr
  | GetObject handle
  | ReadBody handle
  | PutObject handle "byte list"

definition recorded ::
  "client_request \<Rightarrow> ('w, 'a) client_call \<Rightarrow> (client_request list \<times> 'w, 'a) client_call" where
  "recorded request call = (\<lambda>(reqs, w). case call w of (r, w') \<Rightarrow> (r, (reqs @ [request], w')))"

definition recording_mysql ::
  "'w mysql_connector \<Rightarrow> (client_request list \<times> 'w) mysql_connector" where
  "recording_mysql cl =
     \<lparr>mysql_connect = (\<lambda>d. recorded (Connect d) (mysql_connect cl d)),
      mysql_cursor = (\<lambda>c. recorded (Cursor c) (mysql_cursor cl c)),
      mysql_execute = (\<lambda>k stmt ps. recorded (Execute k stmt ps) (mysql_execute cl k stmt ps)),
      mysql_fetchall = (\<lambda>k. recorded (Fetchall k) (mysql_fetchall cl k)),
      mysql_commit = (\<lambda>c. recorded (Commit c) (mysql_commit cl c)),
      mysql_rollback = (\<lambda>c. recorded (Rollback c) (mysql_rollback cl c))\<rparr>"

definition recording_mongo :: "'w pymongo \<Rightarrow> (client_request list \<times> 'w) pymongo" where
  "recording_mongo cl =
     \<lparr>mongo_MongoClient = (\<lambda>u. recorded (MongoClient u) (mongo_MongoClient cl u)),
      mongo_find = (\<lambda>c f. recorded (Find c f) (mongo_find cl c f)),
      mongo_list = (\<lambda>k. recorded (ListCursor k) (mongo_list cl k)),
      mongo_insert_one = (\<lambda>c d. recorded (InsertOne c d) (mongo_insert_one cl c d))\<rparr>"

definition recording_s3 :: "'w boto3 \<Rightarrow> (client_request list \<times> 'w) boto3" where
  "recording_s3 cl =
     \<lparr>s3_resource = (\<lambda>n. recorded (Resource n) (s3_resource cl n)),
      s3_get = (\<lambda>obj. recorded (GetObject obj) (s3_get cl obj)),
      s3_read = (\<lambda>b. recorded (ReadBody b) (s3_read cl b)),
      s3_put = (\<lambda>obj body. recorded (PutObject obj body) (s3_put cl obj body))\<rparr>"

section \<open>Reference stores\<close>

text \<open>
  The stores themselves are no part of the repository. The three stores below give the
  entry points the behaviour that section 6 of the specification names and that its
  testable properties rely on, and no more.
\<close>

subsection \<open>A relational store\<close>

text \<open>
  Modelled from the spec: the Relational Store Client (\<open>mysql.connector\<close>, absent from
  the sources). A session sees tables of a fixed number of columns; a parameterized
  statement takes one value for each \<open>%s\<close> it holds; \<open>commit\<close> makes the session's
  tables durable and \<open>rollback\<close> drops what is not. Of SQL it reads the two statement
  shapes the adapter sends, over plain identifiers.
\<close>

fun count_placeholders :: "pystr \<Rightarrow> nat" where
  "count_placeholders (a # b # r) =
     (if a = 37 \<and> b = 115 then Suc (count_placeholders r) else count_placeholders (b # r))"
| "count_placeholders _ = 0"

definition identifier_char :: "codepoint \<Rightarrow> bool" where
  "identifier_char c =
     ((48 \<le> c \<and> c \<le> 57) \<or> (65 \<le> c \<and> c \<le> 90) \<or> (97 \<le> c \<and> c \<le> 122) \<or> c = 95)"

definition is_identifier :: "pystr \<Rightarrow> bool" where
  "is_identifier s = (s \<noteq> [] \<and> list_all identifier_char s)"

datatype statement = Select pystr | Insert pystr | Unparsed

definition parse_statement :: "pystr \<Rightarrow> statement" where
  "parse_statement s =
     (if take 14 s = str_lit ''SELECT * FROM '' \<and> is_identifier (drop 14 s)
        then Select (drop 14 s)
      else if take 12 s = str_lit ''INSERT INTO ''
              \<and> is_identifier (takeWhile identifier_char (drop 12 s))
              \<and> dropWhile identifier_char (drop 12 s) = str_lit '' VALUES (%s, %s, %s)''
        then Insert (takeWhile identifier_char (drop 12 s))
      else Unparsed)"

definition bind_parameters :: "pystr \<Rightarrow> pyval option \<Rightarrow> error + pyval list" where
  "bind_parameters stmt params =
     (case params of
        None \<Rightarrow> Inr []
      | Some (PTuple vs) \<Rightarrow>
          if length vs = count_placeholders stmt then Inr vs
          else Inl (StoreError ''ProgrammingError'')
      | Some (PList vs) \<Rightarrow>
          if length vs = count_placeholders stmt then Inr vs
          else Inl (StoreError ''ProgrammingError'')
      | Some _ \<Rightarrow> Inl (StoreError ''ProgrammingError''))"

record mysql_world =
  tables :: "pystr \<rightharpoonup> nat \<times> pyval list"
  durable :: "pystr \<rightharpoonup> nat \<times> pyval list"
  result_sets :: "handle \<rightharpoonup> pyval list"
  mysql_fresh :: nat

definition reference_execute ::
  "handle \<Rightarrow> pystr \<Rightarrow> pyval option \<Rightarrow> (mysql_world, pyval) client_call" where
  "reference_execute k stmt params w =
     (case bind_parameters stmt params of
        Inl e \<Rightarrow> (Inl e, w)
      | Inr vs \<Rightarrow>
          (case parse_statement stmt of
             Select t \<Rightarrow>
               (case tables w t of
                  None \<Rightarrow> (Inl (StoreError ''ProgrammingError''), w)
                | Some (n, rows) \<Rightarrow> (Inr PNone, w\<lparr>result_sets := (result_sets w)(k \<mapsto> rows)\<rparr>))
           | Insert t \<Rightarrow>
               (case tables w t of
                  None \<Rightarrow> (Inl (StoreError ''ProgrammingError''), w)
                | Some (n, rows) \<Rightarrow>
                    if length vs = n
                    then (Inr PNone, w\<lparr>tables := (tables w)(t \<mapsto> (n, rows @ [PTuple vs]))\<rparr>)
                    else (Inl (StoreError ''DataError''), w))
           | Unparsed \<Rightarrow> (Inl (StoreError ''ProgrammingError''), w)))"

definition reference_fetchall :: "handle \<Rightarrow> (mysql_world, pyval) client_call" where
  "reference_fetchall k w =
     (case result_sets w k of
        None \<Rightarrow> (Inl (StoreError ''InterfaceError''), w)
      | Some rows \<Rightarrow> (Inr (PList rows), w\<lparr>result_sets := (result_sets w)(k := None)\<rparr>))"

definition reference_mysql :: "mysql_world mysql_connector" where
  "reference_mysql =
     \<lparr>mysql_connect = (\<lambda>d w. (Inr (Ref (mysql_fresh w)), w\<lparr>mysql_fresh := Suc (mysql_fresh w)\<rparr>)),
      mysql_cursor = (\<lambda>c w. (Inr (Ref (mysql_fresh w)), w\<lparr>mysql_fresh := Suc (mysql_fresh w)\<rparr>)),
      mysql_execute = reference_execute,
      mysql_fetchall = reference_fetchall,
      mysql_commit = (\<lambda>c w. (Inr PNone, w\<lparr>durable := tables w\<rparr>)),
      mysql_rollback = (\<lambda>c w. (Inr PNone, w\<lparr>tables := durable w\<rparr>))\<rparr>"

subsection \<open>A document store\<close>

text \<open>
  Modelled from the spec: the Document Store Client (\<open>pymongo\<close>, absent from the
  sources). A collection is the sequence of the documents inserted into it, empty until
  the first insert; \<open>find\<close> gives a cursor over the documents that carry every field
  of the filter, and \<open>list\<close> drains the cursor.
\<close>

definition field :: "pyval \<Rightarrow> pyval \<Rightarrow> pyval option" where
  "field doc k = (case doc of PDict items \<Rightarrow> map_of (rev items) k | _ \<Rightarrow> None)"

definition matches :: "pyval \<Rightarrow> pyval \<Rightarrow> bool" where
  "matches flt doc =
     (case flt of
        PDict conds \<Rightarrow> list_all (\<lambda>kv. field doc (fst kv) = Some (snd kv)) conds
      | _ \<Rightarrow> False)"

definition is_dict :: "pyval \<Rightarrow> bool" where
  "is_dict v = (case v of PDict _ \<Rightarrow> True | _ \<Rightarrow> False)"

record mongo_world =
  collections :: "handle \<Rightarrow> pyval list"
  open_cursors :: "handle \<rightharpoonup> handle \<times> pyval"
  mongo_fresh :: nat

definition reference_find :: "handle \<Rightarrow> pyval \<Rightarrow> (mongo_world, handle) client_call" where
  "reference_find coll flt w =
     (if is_dict flt
      then (Inr (Ref (mongo_fresh w)),
            w\<lparr>open_cursors := (open_cursors w)(Ref (mongo_fresh w) \<mapsto> (coll, flt)),
              mongo_fresh := Suc (mongo_fresh w)\<rparr>)
      else (Inl TypeError, w))"

definition reference_list :: "handle \<Rightarrow> (mongo_world, pyval list) client_call" where
  "reference_list k w =
     (case open_cursors w k of
        None \<Rightarrow> (Inr [], w)
      | Some (coll, flt) \<Rightarrow>
          (Inr (filter (matches flt) (collections w coll)),
           w\<lparr>open_cursors := (open_cursors w)(k := None)\<rparr>))"

definition reference_insert_one :: "handle \<Rightarrow> pyval \<Rightarrow> (mongo_world, pyval) client_call" where
  "reference_insert_one coll doc w =
     (if is_dict doc
      then (Inr PNone, w\<lparr>collections := (collections w)(coll := collections w coll @ [doc])\<rparr>)
      else (Inl TypeError, w))"

definition reference_mongo :: "mongo_world pymongo" where
  "reference_mongo =
     \<lparr>mongo_MongoClient =
        (\<lambda>u w. (Inr (Ref (mongo_fresh w)), w\<lparr>mongo_fresh := Suc (mongo_fresh w)\<rparr>)),
      mongo_find = reference_find,
      mongo_list = reference_list,
      mongo_insert_one = reference_insert_one\<rparr>"

subsection \<open>An object store\<close>

text \<open>
  Modelled from the spec: the Object-Storage Client (\<open>boto3\<close>, absent from the
  sources). An object is the bytes last put under its key; \<open>get\<close> answers with a
  response whose \<open>'Body'\<close> is a stream over those bytes, and \<open>read\<close> drains the
  stream.
\<close>

record s3_world =
  objects :: "handle \<rightharpoonup> byte list"
  bodies :: "handle \<rightharpoonup> byte list"
  s3_fresh :: nat

definition reference_get :: "handle \<Rightarrow> (s3_world, pyval) client_call" where
  "reference_get obj w =
     (case objects w obj of
        None \<Rightarrow> (Inl (StoreError ''NoSuchKey''), w)
      | Some content \<Rightarrow>
          (Inr (PDict [(PStr (str_lit ''Body''), PObj (Ref (s3_fresh w)))]),
           w\<lparr>bodies := (bodies w)(Ref (s3_fresh w) \<mapsto> content),
             s3_fresh := Suc (s3_fresh w)\<rparr>))"

definition reference_read :: "handle \<Rightarrow> (s3_world, pyval) client_call" where
  "reference_read b w =
     (case bodies w b of
        None \<Rightarrow> (Inl (StoreError ''ValueError''), w)
      | Some content \<Rightarrow> (Inr (PBytes content), w\<lparr>bodies := (bodies w)(b \<mapsto> [])\<rparr>))"

definition reference_put :: "handle \<Rightarrow> byte list \<Rightarrow> (s3_world, pyval) client_call" where
  "reference_put obj body w = (Inr PNone, w\<lparr>objects := (objects w)(obj \<mapsto> body)\<rparr>)"

definition reference_s3 :: "s3_world boto3" where
  "reference_s3 =
     \<lparr>s3_resource = (\<lambda>n w. (Inr (Ref (s3_fresh w)), w\<lparr>s3_fresh := Suc (s3_fresh w)\<rparr>)),
      s3_get = reference_get,
      s3_read = reference_read,
      s3_put = reference_put\<rparr>"

section \<open>Callers and test clients\<close>

text \<open>
  A caller holds one adapter and calls it through the unified interface, any number of
  times, keeping the instance whether a call returned or raised.
\<close>

datatype operation = ReadData pystr | WriteData pystr pyval

definition perform ::
  "('s, 'w) adapter_class \<Rightarrow> operation \<Rightarrow> 's \<Rightarrow> 'w \<Rightarrow> ('s, 'w) method_result" where
  "perform cls x self w =
     (case x of
        ReadData i \<Rightarrow> read_data cls self i w
      | WriteData i d \<Rightarrow> write_data cls self i d w)"

fun run_operations ::
  "('s, 'w) adapter_class \<Rightarrow> operation list \<Rightarrow> 's \<Rightarrow> 'w \<Rightarrow> 's \<times> 'w" where
  "run_operations cls [] self w = (self, w)"
| "run_operations cls (x # xs) self w =
     (case perform cls x self w of (r, self', w') \<Rightarrow> run_operations cls xs self' w')"

text \<open>
  A scripted client fails on cue: its world is the script of the calls to come, and a
  call raises the exception the script holds for it, or returns a fixed value.
\<close>

definition scripted :: "'a \<Rightarrow> (error option list, 'a) client_call" where
  "scripted v script =
     (case script of
        [] \<Rightarrow> (Inr v, [])
      | None # rest \<Rightarrow> (Inr v, rest)
      | Some e # rest \<Rightarrow> (Inl e, rest))"

definition scripted_mysql :: "(error option list) mysql_connector" where
  "scripted_mysql =
     \<lparr>mysql_connect = (\<lambda>d. scripted (Ref 0)),
      mysql_cursor = (\<lambda>c. scripted (Ref 1)),
      mysql_execute = (\<lambda>k stmt ps. scripted PNone),
      mysql_fetchall = (\<lambda>k. scripted (PList [])),
      mysql_commit = (\<lambda>c. scripted PNone),
      mysql_rollback = (\<lambda>c. scripted PNone)\<rparr>"

definition scripted_mongo :: "(error option list) pymongo" where
  "scripted_mongo =
     \<lparr>mongo_MongoClient = (\<lambda>u. scripted (Ref 0)),
      mongo_find = (\<lambda>c f. scripted (Ref 1)),
      mongo_list = (\<lambda>k. scripted []),
      mongo_insert_one = (\<lambda>c d. scripted PNone)\<rparr>"

definition scripted_s3 :: "(error option list) boto3" where
  "scripted_s3 =
     \<lparr>s3_resource = (\<lambda>n. scripted (Ref 0)),
      s3_get = (\<lambda>obj. scripted (PDict [(PStr (str_lit ''Body''), PObj (Ref 1))])),
      s3_read = (\<lambda>b. scripted (PBytes [])),
      s3_put = (\<lambda>obj body. scripted PNone)\<rparr>"

section \<open>Well-formed payloads\<close>

text \<open>
  Text whose every code point is a Unicode scalar value: below U+110000 and no
  surrogate. It is the text \<open>str.encode('utf-8')\<close> accepts.
\<close>

definition unicode_text :: "pystr \<Rightarrow> bool" where
  "unicode_text s = list_all (\<lambda>c. c < 0xD800 \<or> (0xE000 \<le> c \<and> c < 0x110000)) s"

definition table_rows :: "mysql_world \<Rightarrow> pystr \<Rightarrow> pyval list" where
  "table_rows w t = (case tables w t of None \<Rightarrow> [] | Some (n, rows) \<Rightarrow> rows)"

section \<open>Properties of binary64 rounding\<close>

lemma floor_log2_bounds:
  assumes "0 < x"
  shows "2 powi \<lfloor>log 2 x\<rfloor> \<le> x" and "x < 2 powi (\<lfloor>log 2 x\<rfloor> + 1)"
proof -
  define e where "e = \<lfloor>log 2 x\<rfloor>"
  have b: "2 powr real_of_int e \<le> x \<and> x < 2 powr real_of_int (e + 1)"
    using floor_log_eq_powr_iff [of x 2 e] assms by (simp add: e_def)
  have p1: "(2::real) powr real_of_int e = 2 powi e"
    by (rule powr_real_of_int') simp_all
  have p2: "(2::real) powr real_of_int (e + 1) = 2 powi (e + 1)"
    by (rule powr_real_of_int') simp_all
  show "2 powi \<lfloor>log 2 x\<rfloor> \<le> x" using b p1 by (simp add: e_def)
  show "x < 2 powi (\<lfloor>log 2 x\<rfloor> + 1)" using b unfolding p2 by (simp add: e_def)
qed

lemma binade_eq:
  assumes "2 powi e \<le> \<bar>x\<bar>" "\<bar>x\<bar> < 2 powi (e + 1)" "- 1022 \<le> e"
  shows "binade x = e"
proof -
  have p: "0 < (2::real) powi e" by simp
  have pos: "0 < \<bar>x\<bar>" using assms(1) p by linarith
  have a: "2 powr real_of_int e \<le> \<bar>x\<bar>"
    using assms(1) by (simp add: powr_real_of_int')
  have "(2::real) powr real_of_int (e + 1) = 2 powi (e + 1)"
    by (rule powr_real_of_int') simp_all
  with assms(2) have b: "\<bar>x\<bar> < 2 powr real_of_int (e + 1)" by simp
  have "\<lfloor>log 2 \<bar>x\<bar>\<rfloor> = e"
    using floor_log_eq_powr_iff [of "\<bar>x\<bar>" 2 e] pos a b by simp
  with assms(3) show ?thesis by (simp add: binade_def)
qed

lemma round_half_even_near: "\<bar>m - of_int n\<bar> < 1 / 2 \<Longrightarrow> round_half_even m = n"
proof -
  assume h: "\<bar>m - of_int n\<bar> < 1 / 2"
  show ?thesis
  proof (cases "of_int n \<le> m")
    case True
    with h have "\<lfloor>m\<rfloor> = n" by (intro floor_unique) linarith+
    with h True show ?thesis by (simp add: round_half_even_def Let_def)
  next
    case False
    have lo: "of_int (n - 1) \<le> m" using h [unfolded abs_less_iff] by simp
    have hi: "m < of_int (n - 1) + 1" using False by simp
    have f: "\<lfloor>m\<rfloor> = n - 1" using lo hi by (rule floor_unique)
    have "1 / 2 < m - of_int (n - 1)" using h [unfolded abs_less_iff] False by simp
    with f show ?thesis by (simp add: round_half_even_def Let_def)
  qed
qed

lemma round_half_even_ge_floor: "\<lfloor>m\<rfloor> \<le> round_half_even m"
  by (simp add: round_half_even_def Let_def)

lemma round_double_eq:
  assumes "2 powi e \<le> \<bar>x\<bar>" "\<bar>x\<bar> < 2 powi (e + 1)" "- 1022 \<le> e"
    and "\<bar>x / 2 powi (e - 52) - of_int n\<bar> < 1 / 2"
    and "\<bar>of_int n * 2 powi (e - 52)\<bar> < (2::real) ^ 1024"
  shows "round_double x = Finite (of_int n * 2 powi (e - 52))"
proof -
  have b: "binade x = e" using assms(1-3) by (rule binade_eq)
  have p: "0 < (2::real) powi e" by simp
  have "0 < \<bar>x\<bar>" using assms(1) p by linarith
  then have nz: "x \<noteq> 0" by simp
  have r: "round_half_even (x / 2 powi (e - 52)) = n"
    using assms(4) by (rule round_half_even_near)
  show ?thesis using assms(5) nz by (simp add: round_double_def ulp_def b r Let_def)
qed

lemma round_double_of_int:
  assumes "\<bar>n\<bar> \<le> 2 ^ 53"
  shows "round_double (of_int n) = Finite (of_int n)"
proof (cases "n = 0")
  case True
  then show ?thesis by (simp add: round_double_def)
next
  case False
  define x :: real where "x = \<bar>of_int n\<bar>"
  have x1: "1 \<le> x" using False by (simp add: x_def flip: of_int_abs)
  define e where "e = \<lfloor>log 2 x\<rfloor>"
  have e0: "0 \<le> e" using x1 by (simp add: e_def)
  have lo: "2 powi e \<le> x" and hi: "x < 2 powi (e + 1)"
    using floor_log2_bounds [of x] x1 by (simp_all add: e_def)
  have xle: "x \<le> 2 ^ 53" using assms by (simp add: x_def flip: of_int_abs)
  show ?thesis
  proof (cases "e \<le> 52")
    case True
    define k where "k = nat (52 - e)"
    have u: "(2::real) powi (e - 52) = 1 / 2 ^ k"
      using True by (simp add: power_int_def k_def field_simps)
    have m: "of_int n / (2::real) powi (e - 52) = of_int (n * 2 ^ k)" by (simp add: u)
    have r: "of_int (n * 2 ^ k) * (2::real) powi (e - 52) = of_int n" by (simp add: u)
    have "round_double (of_int n) = Finite (of_int (n * 2 ^ k) * 2 powi (e - 52))"
    proof (rule round_double_eq)
      show "2 powi e \<le> \<bar>real_of_int n\<bar>" using lo by (simp add: x_def)
      show "\<bar>real_of_int n\<bar> < 2 powi (e + 1)" using hi by (simp add: x_def)
      show "- 1022 \<le> e" using e0 by simp
      show "\<bar>real_of_int n / 2 powi (e - 52) - real_of_int (n * 2 ^ k)\<bar> < 1 / 2"
        by (simp add: m)
      show "\<bar>real_of_int (n * 2 ^ k) * 2 powi (e - 52)\<bar> < 2 ^ 1024"
      proof -
        have "\<bar>real_of_int n\<bar> < 2 ^ 1024" using xle by (simp add: x_def)
        then show ?thesis by (simp only: r)
      qed
    qed
    then show ?thesis by (simp only: r)
  next
    case False
    have "(2::real) powi 53 \<le> 2 powi e"
      using False by (intro power_int_increasing) simp_all
    with lo xle have xe: "x = 2 ^ 53" by simp
    then have ne: "\<bar>n\<bar> = 2 ^ 53"
      using assms by (simp add: x_def flip: of_int_abs)
    then consider "n = 2 ^ 53" | "n = - (2 ^ 53)" by linarith
    then show ?thesis
    proof cases
      case 1
      show ?thesis
        using round_double_eq [of 53 "2 ^ 53" "2 ^ 52"] by (simp add: 1 power_int_def)
    next
      case 2
      show ?thesis
        using round_double_eq [of 53 "- (2 ^ 53)" "- (2 ^ 52)"] by (simp add: 2 power_int_def)
    qed
  qed
qed

lemma round_double_lower:
  assumes "2 powi e \<le> x" "- 1022 \<le> e"
  shows "round_double x = PosInf
         \<or> (\<exists>r. round_double x = Finite r \<and> 2 powi e \<le> r \<and> r < 2 ^ 1024)"
proof -
  have p: "0 < (2::real) powi e" by simp
  have xpos: "0 < x" using assms(1) p by linarith
  define fl where "fl = \<lfloor>log 2 x\<rfloor>"
  have lo: "2 powi fl \<le> x" and hi: "x < 2 powi (fl + 1)"
    using floor_log2_bounds [of x] xpos by (simp_all add: fl_def)
  have efl: "e \<le> fl"
  proof (rule ccontr)
    assume "\<not> e \<le> fl"
    then have "(2::real) powi (fl + 1) \<le> 2 powi e"
      by (intro power_int_increasing) simp_all
    with hi assms(1) show False by simp
  qed
  have b: "binade x = fl" using efl assms(2) xpos by (simp add: binade_def fl_def)
  define u :: real where "u = 2 powi (fl - 52)"
  have upos: "0 < u" by (simp add: u_def)
  have eu: "(2::real) powi fl = 2 ^ 52 * u"
    using power_int_add [of "2::real" 52 "fl - 52"] by (simp add: u_def)
  define r where "r = of_int (round_half_even (x / u)) * u"
  have "2 ^ 52 \<le> x / u" using lo upos by (simp add: eu field_simps)
  then have "(2 ^ 52 :: int) \<le> \<lfloor>x / u\<rfloor>" by (simp add: le_floor_iff)
  then have "(2 ^ 52 :: int) \<le> round_half_even (x / u)"
    using round_half_even_ge_floor [of "x / u"] by linarith
  then have "(2 ^ 52 :: real) \<le> of_int (round_half_even (x / u))"
    by (metis of_int_le_iff of_int_numeral of_int_power)
  then have "2 ^ 52 * u \<le> r"
    using upos by (simp add: r_def)
  moreover have "(2::real) powi e \<le> 2 powi fl"
    using efl by (intro power_int_increasing) simp_all
  ultimately have big: "2 powi e \<le> r" using eu by linarith
  then have rpos: "0 < r" using p by linarith
  have rd: "round_double x = (if 2 ^ 1024 \<le> \<bar>r\<bar> then PosInf else Finite r)"
    using xpos by (simp add: round_double_def ulp_def b Let_def r_def u_def)
  show ?thesis
  proof (cases "2 ^ 1024 \<le> \<bar>r\<bar>")
    case True
    with rd show ?thesis by simp
  next
    case False
    with rd big rpos show ?thesis by simp
  qed
qed

lemma round_double_overflow:
  assumes "2 ^ 1024 \<le> x"
  shows "round_double x = PosInf"
  using round_double_lower [of 1024 x] assms by auto

lemma float_of_int_exact: "\<bar>k\<bar> \<le> 2 ^ 53 \<Longrightarrow> float_of_int k = Inr (Finite (of_int k))"
  by (simp add: float_of_int_def round_double_of_int)

section \<open>Properties of the unit-conversion adapter\<close>

lemma get_temperature_eq: "get_temperature s = temperature s"
  by (cases s) simp_all

lemma convert_int_reading:
  assumes "as_number (temperature (h (fahrenheit_sensor self))) = Some (NInt F)"
  shows "TemperatureSensorAdapter_get_temperature self h =
           ((case round_double (of_int ((F - 32) * 5) / 9) of
               Finite c \<Rightarrow> Inr (NFloat (Finite c))
             | _ \<Rightarrow> Inl OverflowError), self, h)"
  using assms
  by (simp add: TemperatureSensorAdapter_get_temperature_def get_temperature_eq py_sub_def
      py_mul_def py_truediv_def int_truediv_def split: pyfloat.split)

lemma convert_exact_quotient:
  assumes "as_number (temperature (h (fahrenheit_sensor self))) = Some (NInt F)"
    and "(F - 32) * 5 = 9 * c" and "\<bar>c\<bar> \<le> 2 ^ 53"
  shows "TemperatureSensorAdapter_get_temperature self h = (Inr (NFloat (Finite (of_int c))), self, h)"
proof -
  have "real_of_int ((F - 32) * 5) = real_of_int (9 * c)"
    by (simp only: assms(2))
  then have "real_of_int ((F - 32) * 5) / 9 = of_int c"
    by simp
  then show ?thesis
    using convert_int_reading [of h self F, OF assms(1)] round_double_of_int [OF assms(3)]
    by simp
qed

lemma convert_int_overflow:
  assumes "as_number (temperature (h (fahrenheit_sensor self))) = Some (NInt F)"
    and "9 * 2 ^ 1024 \<le> (F - 32) * 5"
  shows "TemperatureSensorAdapter_get_temperature self h = (Inl OverflowError, self, h)"
proof -
  have "real_of_int (9 * 2 ^ 1024) \<le> real_of_int ((F - 32) * 5)"
    using assms(2) by (simp only: of_int_le_iff)
  then have "2 ^ 1024 \<le> real_of_int ((F - 32) * 5) / 9" by simp
  then have "round_double (real_of_int ((F - 32) * 5) / 9) = PosInf"
    by (rule round_double_overflow)
  then show ?thesis using convert_int_reading [of h self F, OF assms(1)] by simp
qed

lemma convert_float_reading:
  assumes "temperature (h (fahrenheit_sensor self)) = PFloat f"
  shows "TemperatureSensorAdapter_get_temperature self h =
           (Inr (NFloat (case float_mul (float_sub f (Finite 32)) (Finite 5) of
                           Finite y \<Rightarrow> round_double (y / 9)
                         | g \<Rightarrow> g)), self, h)"
proof -
  have k: "float_of_int 32 = Inr (Finite 32)" "float_of_int 5 = Inr (Finite 5)"
    "float_of_int 9 = Inr (Finite 9)"
    using float_of_int_exact [of 32] float_of_int_exact [of 5] float_of_int_exact [of 9]
    by simp_all
  show ?thesis
    using assms
    by (simp add: TemperatureSensorAdapter_get_temperature_def get_temperature_eq py_sub_def
        py_mul_def py_truediv_def as_number_def k negative_def split: pyfloat.split)
qed

lemma convert_float_overflow:
  assumes "temperature (h (fahrenheit_sensor self)) = PFloat (Finite x)" and "2 ^ 1023 \<le> x"
  shows "TemperatureSensorAdapter_get_temperature self h = (Inr (NFloat PosInf), self, h)"
proof -
  have "(2::real) powi 1022 \<le> x - 32" using assms(2) by (simp add: power_int_def)
  then consider "round_double (x - 32) = PosInf"
    | r where "round_double (x - 32) = Finite r" "2 powi 1022 \<le> r"
    using round_double_lower [of 1022 "x - 32"] by auto
  then have "float_mul (float_sub (Finite x) (Finite 32)) (Finite 5) = PosInf"
  proof cases
    case 1
    then show ?thesis by (simp add: negative_def)
  next
    case 2
    then have "2 ^ 1024 \<le> r * 5" by (simp add: power_int_def)
    then have "round_double (r * 5) = PosInf" by (rule round_double_overflow)
    with 2 show ?thesis by simp
  qed
  then show ?thesis
    using convert_float_reading [of h self "Finite x", OF assms(1)] by simp
qed

lemma convert_no_number:
  assumes "as_number (temperature (h (fahrenheit_sensor self))) = None"
  shows "TemperatureSensorAdapter_get_temperature self h = (Inl TypeError, self, h)"
  using assms
  by (simp add: TemperatureSensorAdapter_get_temperature_def get_temperature_eq py_sub_def)

lemma reading_determines_result:
  assumes "temperature (h (fahrenheit_sensor self)) = temperature (h' (fahrenheit_sensor self'))"
  shows "fst (TemperatureSensorAdapter_get_temperature self h)
           = fst (TemperatureSensorAdapter_get_temperature self' h')"
  using assms
  by (simp add: TemperatureSensorAdapter_get_temperature_def get_temperature_eq Let_def
      split: sum.split)

lemma convert_leaves_heap:
  "snd (TemperatureSensorAdapter_get_temperature self h) = (self, h)"
  by (simp add: TemperatureSensorAdapter_get_temperature_def Let_def split: sum.split)

lemma temperature_set_temperature: "temperature (set_temperature a v h a) = v"
  by (simp add: set_temperature_def split: sensor.split)

text \<open>
  C2. \<open>get_temperature\<close> of the adapter evaluates \<open>(F - 32) * 5 / 9\<close> in Python's
  arithmetic on the reading \<open>F\<close> the wrapped sensor holds at the call. For an
  \<open>int\<close> reading (a \<open>bool\<close> counts as 0 or 1) the difference and the product are
  exact and the result is the \<open>float\<close> nearest to the exact quotient: the quotient
  itself whenever it is an integer of magnitude at most \<open>2 ^ 53\<close>, and
  \<open>OverflowError\<close> when it is \<open>2 ^ 1024\<close> or more. For a \<open>float\<close> reading each of
  the three operations rounds; the call never raises and returns \<open>inf\<close> from
  \<open>2 ^ 1023\<close> on. A reading that is no number raises \<open>TypeError\<close>. Nothing is
  cached: after a first call, whatever it gave, a change of the sensor's reading to
  \<open>v\<close> makes the next call return what a new adapter on a new sensor reporting
  \<open>v\<close> returns; a change to 77 makes it return 25.0, and a change to 32 makes it
  return 0.0. The instance and the heap are left as they were.
\<close>

theorem get_temperature_evaluates_in_python_arithmetic:
  "(as_number (temperature (h (fahrenheit_sensor self))) = Some (NInt F) \<longrightarrow>
      TemperatureSensorAdapter_get_temperature self h =
        ((case round_double (of_int ((F - 32) * 5) / 9) of
            Finite q \<Rightarrow> Inr (NFloat (Finite q))
          | _ \<Rightarrow> Inl OverflowError), self, h))
   \<and> (as_number (temperature (h (fahrenheit_sensor self))) = Some (NInt F)
        \<and> (F - 32) * 5 = 9 * c \<and> \<bar>c\<bar> \<le> 2 ^ 53 \<longrightarrow>
      TemperatureSensorAdapter_get_temperature self h = (Inr (NFloat (Finite (of_int c))), self, h))
   \<and> (as_number (temperature (h (fahrenheit_sensor self))) = Some (NInt F)
        \<and> 9 * 2 ^ 1024 \<le> (F - 32) * 5 \<longrightarrow>
      TemperatureSensorAdapter_get_temperature self h = (Inl OverflowError, self, h))
   \<and> (temperature (h (fahrenheit_sensor self)) = PFloat f \<longrightarrow>
      TemperatureSensorAdapter_get_temperature self h =
        (Inr (NFloat (case float_mul (float_sub f (Finite 32)) (Finite 5) of
                        Finite y \<Rightarrow> round_double (y / 9)
                      | g \<Rightarrow> g)), self, h))
   \<and> (temperature (h (fahrenheit_sensor self)) = PFloat (Finite x) \<and> 2 ^ 1023 \<le> x \<longrightarrow>
      TemperatureSensorAdapter_get_temperature self h = (Inr (NFloat PosInf), self, h))
   \<and> (as_number (temperature (h (fahrenheit_sensor self))) = None \<longrightarrow>
      TemperatureSensorAdapter_get_temperature self h = (Inl TypeError, self, h))
   \<and> (case TemperatureSensorAdapter_get_temperature self h of
        (r1, self1, h1) \<Rightarrow>
          fst (TemperatureSensorAdapter_get_temperature self1
                (set_temperature (fahrenheit_sensor self1) v h1))
            = fst (TemperatureSensorAdapter_get_temperature (TemperatureSensorAdapter_init 0)
                     (\<lambda>a. FahrenheitTemperatureSensor v))
          \<and> fst (TemperatureSensorAdapter_get_temperature self1
                   (set_temperature (fahrenheit_sensor self1) (PInt 77) h1))
              = Inr (NFloat (Finite 25))
          \<and> fst (TemperatureSensorAdapter_get_temperature self1
                   (set_temperature (fahrenheit_sensor self1) (PInt 32) h1))
              = Inr (NFloat (Finite 0)))
   \<and> fst (TemperatureSensorAdapter_get_temperature (TemperatureSensorAdapter_init a)
            (h(a := FahrenheitTemperatureSensor (PInt 77)))) = Inr (NFloat (Finite 25))
   \<and> fst (TemperatureSensorAdapter_get_temperature (TemperatureSensorAdapter_init a)
            (h(a := FahrenheitTemperatureSensor (PInt 32)))) = Inr (NFloat (Finite 0))"
proof -
  have at77: "fst (TemperatureSensorAdapter_get_temperature s g) = Inr (NFloat (Finite 25))"
    if "temperature (g (fahrenheit_sensor s)) = PInt 77" for s g
    using convert_exact_quotient [of g s 77 25] that by (simp add: as_number_def)
  have at32: "fst (TemperatureSensorAdapter_get_temperature s g) = Inr (NFloat (Finite 0))"
    if "temperature (g (fahrenheit_sensor s)) = PInt 32" for s g
    using convert_exact_quotient [of g s 32 0] that by (simp add: as_number_def)
  have again: "case TemperatureSensorAdapter_get_temperature self h of
        (r1, self1, h1) \<Rightarrow>
          fst (TemperatureSensorAdapter_get_temperature self1
                (set_temperature (fahrenheit_sensor self1) v h1))
            = fst (TemperatureSensorAdapter_get_temperature (TemperatureSensorAdapter_init 0)
                     (\<lambda>a. FahrenheitTemperatureSensor v))
          \<and> fst (TemperatureSensorAdapter_get_temperature self1
                   (set_temperature (fahrenheit_sensor self1) (PInt 77) h1))
              = Inr (NFloat (Finite 25))
          \<and> fst (TemperatureSensorAdapter_get_temperature self1
                   (set_temperature (fahrenheit_sensor self1) (PInt 32) h1))
              = Inr (NFloat (Finite 0))"
    using reading_determines_result [of "set_temperature (fahrenheit_sensor self) v h" self
        "\<lambda>a. FahrenheitTemperatureSensor v" "TemperatureSensorAdapter_init 0"]
    by (simp add: split_beta convert_leaves_heap temperature_set_temperature at77 at32)
  have init77: "fst (TemperatureSensorAdapter_get_temperature (TemperatureSensorAdapter_init a)
            (h(a := FahrenheitTemperatureSensor (PInt 77)))) = Inr (NFloat (Finite 25))"
    by (rule at77) (simp add: TemperatureSensorAdapter_init_def)
  have init32: "fst (TemperatureSensorAdapter_get_temperature (TemperatureSensorAdapter_init a)
            (h(a := FahrenheitTemperatureSensor (PInt 32)))) = Inr (NFloat (Finite 0))"
    by (rule at32) (simp add: TemperatureSensorAdapter_init_def)
  show ?thesis
    using convert_int_reading [of h self F] convert_exact_quotient [of h self F c]
      convert_int_overflow [of h self F] convert_float_reading [of h self f]
      convert_float_overflow [of h self x] convert_no_number [of h self]
      again init77 init32
    by blast
qed

theorem get_temperature_evaluates_in_python_arithmetic_witness:
  "TemperatureSensorAdapter_get_temperature (TemperatureSensorAdapter_init 0)
       (\<lambda>a. FahrenheitTemperatureSensor (PInt 77))
     = (Inr (NFloat (Finite 25)), TemperatureSensorAdapter_init 0,
        (\<lambda>a. FahrenheitTemperatureSensor (PInt 77)))
   \<and> TemperatureSensorAdapter_get_temperature (TemperatureSensorAdapter_init 0)
       (\<lambda>a. FahrenheitTemperatureSensor (PFloat (Finite 77)))
     = (Inr (NFloat (Finite 25)), TemperatureSensorAdapter_init 0,
        (\<lambda>a. FahrenheitTemperatureSensor (PFloat (Finite 77))))
   \<and> TemperatureSensorAdapter_get_temperature (TemperatureSensorAdapter_init 0)
       (\<lambda>a. FahrenheitTemperatureSensor (PFloat (Finite (2 ^ 1023))))
     = (Inr (NFloat PosInf), TemperatureSensorAdapter_init 0,
        (\<lambda>a. FahrenheitTemperatureSensor (PFloat (Finite (2 ^ 1023)))))
   \<and> TemperatureSensorAdapter_get_temperature (TemperatureSensorAdapter_init 0)
       (\<lambda>a. FahrenheitTemperatureSensor (PInt (2 ^ 1030)))
     = (Inl OverflowError, TemperatureSensorAdapter_init 0,
        (\<lambda>a. FahrenheitTemperatureSensor (PInt (2 ^ 1030))))
   \<and> TemperatureSensorAdapter_get_temperature (TemperatureSensorAdapter_init 0)
       (\<lambda>a. FahrenheitTemperatureSensor (PStr (str_lit ''77'')))
     = (Inl TypeError, TemperatureSensorAdapter_init 0,
        (\<lambda>a. FahrenheitTemperatureSensor (PStr (str_lit ''77''))))"
proof -
  have r: "round_double 45 = Finite 45" "round_double 225 = Finite 225"
    "round_double 25 = Finite 25"
    using round_double_of_int [of 45] round_double_of_int [of 225] round_double_of_int [of 25]
    by simp_all
  have a: "TemperatureSensorAdapter_get_temperature (TemperatureSensorAdapter_init 0)
       (\<lambda>a. FahrenheitTemperatureSensor (PInt 77))
     = (Inr (NFloat (Finite 25)), TemperatureSensorAdapter_init 0,
        (\<lambda>a. FahrenheitTemperatureSensor (PInt 77)))"
    using get_temperature_evaluates_in_python_arithmetic
        [where h = "\<lambda>a. FahrenheitTemperatureSensor (PInt 77)"
           and self = "TemperatureSensorAdapter_init 0" and F = 77 and c = 25
           and f = NaN and x = 0 and v = PNone and a = 0, THEN conjunct2, THEN conjunct1]
    by (simp add: as_number_def)
  have b: "TemperatureSensorAdapter_get_temperature (TemperatureSensorAdapter_init 0)
       (\<lambda>a. FahrenheitTemperatureSensor (PFloat (Finite 77)))
     = (Inr (NFloat (Finite 25)), TemperatureSensorAdapter_init 0,
        (\<lambda>a. FahrenheitTemperatureSensor (PFloat (Finite 77))))"
    using get_temperature_evaluates_in_python_arithmetic
        [where h = "\<lambda>a. FahrenheitTemperatureSensor (PFloat (Finite 77))"
           and self = "TemperatureSensorAdapter_init 0" and F = 0 and c = 0
           and f = "Finite 77" and x = 0 and v = PNone and a = 0, THEN conjunct2, THEN conjunct2, THEN conjunct2, THEN conjunct1]
    by (simp add: r)
  have c: "TemperatureSensorAdapter_get_temperature (TemperatureSensorAdapter_init 0)
       (\<lambda>a. FahrenheitTemperatureSensor (PFloat (Finite (2 ^ 1023))))
     = (Inr (NFloat PosInf), TemperatureSensorAdapter_init 0,
        (\<lambda>a. FahrenheitTemperatureSensor (PFloat (Finite (2 ^ 1023)))))"
    using get_temperature_evaluates_in_python_arithmetic
        [where h = "\<lambda>a. FahrenheitTemperatureSensor (PFloat (Finite (2 ^ 1023)))"
           and self = "TemperatureSensorAdapter_init 0" and F = 0 and c = 0
           and f = NaN and x = "2 ^ 1023" and v = PNone and a = 0, THEN conjunct2, THEN conjunct2, THEN conjunct2, THEN conjunct2, THEN conjunct1]
    by simp
  have d: "TemperatureSensorAdapter_get_temperature (TemperatureSensorAdapter_init 0)
       (\<lambda>a. FahrenheitTemperatureSensor (PInt (2 ^ 1030)))
     = (Inl OverflowError, TemperatureSensorAdapter_init 0,
        (\<lambda>a. FahrenheitTemperatureSensor (PInt (2 ^ 1030))))"
    using get_temperature_evaluates_in_python_arithmetic
        [where h = "\<lambda>a. FahrenheitTemperatureSensor (PInt (2 ^ 1030))"
           and self = "TemperatureSensorAdapter_init 0" and F = "2 ^ 1030" and c = 0
           and f = NaN and x = 0 and v = PNone and a = 0, THEN conjunct2, THEN conjunct2, THEN conjunct1]
    by (simp add: as_number_def)
  have e: "TemperatureSensorAdapter_get_temperature (TemperatureSensorAdapter_init 0)
       (\<lambda>a. FahrenheitTemperatureSensor (PStr (str_lit ''77'')))
     = (Inl TypeError, TemperatureSensorAdapter_init 0,
        (\<lambda>a. FahrenheitTemperatureSensor (PStr (str_lit ''77''))))"
    using get_temperature_evaluates_in_python_arithmetic
        [where h = "\<lambda>a. FahrenheitTemperatureSensor (PStr (str_lit ''77''))"
           and self = "TemperatureSensorAdapter_init 0" and F = 0 and c = 0
           and f = NaN and x = 0 and v = PNone and a = 0, THEN conjunct2, THEN conjunct2, THEN conjunct2, THEN conjunct2, THEN conjunct2, THEN conjunct1]
    by (simp add: as_number_def)
  from a b c d e show ?thesis by blast
qed

text \<open>
  The claim as stated, that the call returns exactly (F - 32) * 5 / 9 for every
  reading, fails where that quotient is no \<open>float\<close>. At the reading 100 the exact
  value is 340 / 9; the call returns the nearest \<open>float\<close>, which is
  5316749560090169 / 2 ^ 47 and differs from it. At the reading \<open>10 ^ 400\<close> the call
  returns nothing: it raises \<open>OverflowError\<close>.
\<close>

theorem get_temperature_rounds_at_100:
  "TemperatureSensorAdapter_get_temperature (TemperatureSensorAdapter_init 0)
       (\<lambda>a. FahrenheitTemperatureSensor (PInt 100))
     = (Inr (NFloat (Finite (5316749560090169 / 140737488355328))),
        TemperatureSensorAdapter_init 0, (\<lambda>a. FahrenheitTemperatureSensor (PInt 100)))
   \<and> (5316749560090169 / 140737488355328 :: real) \<noteq> (100 - 32) * 5 / 9
   \<and> TemperatureSensorAdapter_get_temperature (TemperatureSensorAdapter_init 0)
       (\<lambda>a. FahrenheitTemperatureSensor (PInt (10 ^ 400)))
     = (Inl OverflowError, TemperatureSensorAdapter_init 0,
        (\<lambda>a. FahrenheitTemperatureSensor (PInt (10 ^ 400))))"
proof -
  have r: "round_double (340 / 9) = Finite (5316749560090169 / 140737488355328)"
    using round_double_eq [of 5 "340 / 9" 5316749560090169]
    by (simp add: power_int_def power_divide)
  have a: "TemperatureSensorAdapter_get_temperature (TemperatureSensorAdapter_init 0)
       (\<lambda>a. FahrenheitTemperatureSensor (PInt 100))
     = (Inr (NFloat (Finite (5316749560090169 / 140737488355328))),
        TemperatureSensorAdapter_init 0, (\<lambda>a. FahrenheitTemperatureSensor (PInt 100)))"
    using convert_int_reading [of "\<lambda>a. FahrenheitTemperatureSensor (PInt 100)"
        "TemperatureSensorAdapter_init 0" 100]
    by (simp add: as_number_def r)
  have b: "(5316749560090169 / 140737488355328 :: real) \<noteq> (100 - 32) * 5 / 9"
    by simp
  define N :: int where "N = 10 ^ 400"
  have big: "9 * 2 ^ 1024 \<le> (N - 32) * 5"
    unfolding N_def by simp
  have "TemperatureSensorAdapter_get_temperature (TemperatureSensorAdapter_init 0)
       (\<lambda>a. FahrenheitTemperatureSensor (PInt N))
     = (Inl OverflowError, TemperatureSensorAdapter_init 0,
        (\<lambda>a. FahrenheitTemperatureSensor (PInt N)))"
    by (rule convert_int_overflow [OF _ big]) (simp add: as_number_def)
  then have c: "TemperatureSensorAdapter_get_temperature (TemperatureSensorAdapter_init 0)
       (\<lambda>a. FahrenheitTemperatureSensor (PInt (10 ^ 400)))
     = (Inl OverflowError, TemperatureSensorAdapter_init 0,
        (\<lambda>a. FahrenheitTemperatureSensor (PInt (10 ^ 400))))"
    unfolding N_def .
  from a b c show ?thesis by blast
qed

section \<open>Properties of the unified interface\<close>

text \<open>
  C3. \<open>read_data\<close> and \<open>write_data\<close> of \<open>DataStoreAdapter\<close> itself raise
  \<open>NotImplementedError\<close>, for every identifier and data argument, and so does a call
  through any class that does not override the operation. Neither the instance nor the
  world is touched.
\<close>

theorem abstract_interface_not_implemented:
  "DataStoreAdapter_read_data self identifier w = (Inl NotImplementedError, self, w)
   \<and> DataStoreAdapter_write_data self identifier data w = (Inl NotImplementedError, self, w)
   \<and> (read_data_override cls = None \<longrightarrow>
        read_data cls self identifier w = (Inl NotImplementedError, self, w))
   \<and> (write_data_override cls = None \<longrightarrow>
        write_data cls self identifier data w = (Inl NotImplementedError, self, w))"
  by (simp add: DataStoreAdapter_read_data_def DataStoreAdapter_write_data_def
      read_data_def write_data_def)

theorem abstract_interface_not_implemented_witness:
  "read_data (DataStoreAdapter_class :: (unit, nat) adapter_class) () (str_lit ''mytable'') 0
     = (Inl NotImplementedError, (), 0)
   \<and> write_data (DataStoreAdapter_class :: (unit, nat) adapter_class) () (str_lit ''mytable'')
       (PTuple [PInt 1]) 0 = (Inl NotImplementedError, (), 0)"
  using abstract_interface_not_implemented [of "()" "str_lit ''mytable''" "0::nat"
      "PTuple [PInt 1]" "DataStoreAdapter_class :: (unit, nat) adapter_class"]
  by (simp add: DataStoreAdapter_class_def)

section \<open>What the adapters ask of their Store Clients\<close>

lemma recorded_apply:
  "recorded request call (reqs, w) = (case call w of (r, w') \<Rightarrow> (r, (reqs @ [request], w')))"
  by (simp add: recorded_def)

text \<open>
  C6. For every \<open>table_name\<close>, \<open>read_data\<close> of the relational adapter asks its
  cursor to execute the statement whose text is \<open>"SELECT * FROM "\<close> followed by
  \<open>table_name\<close> as it stands, with no parameters; when that call returns it asks for
  \<open>fetchall\<close> on the same cursor and its outcome is the outcome of \<open>fetchall\<close>.
  Nothing else is requested; when \<open>execute\<close> raises, the exception is the outcome.
\<close>

theorem mysql_read_data_executes_interpolated_select:
  "MySQLAdapter_read_data (recording_mysql cl) self table_name (reqs, w) =
     (case mysql_execute cl (cursor self) (str_lit ''SELECT * FROM '' @ table_name) None w of
        (Inl e, w1) \<Rightarrow>
          (Inl e, self,
           (reqs @ [Execute (cursor self) (str_lit ''SELECT * FROM '' @ table_name) None], w1))
      | (Inr x, w1) \<Rightarrow>
          (case mysql_fetchall cl (cursor self) w1 of
             (rows, w2) \<Rightarrow>
               (rows, self,
                (reqs @ [Execute (cursor self) (str_lit ''SELECT * FROM '' @ table_name) None,
                         Fetchall (cursor self)], w2))))"
  by (simp add: MySQLAdapter_read_data_def recording_mysql_def recorded_apply
      select_statement_def split: prod.split sum.split)

section \<open>Payloads of the object-storage adapter that are no text\<close>

lemma has_encode_values:
  "\<not> has_encode PNone" "\<not> has_encode (PBool b)" "\<not> has_encode (PInt n)"
  "\<not> has_encode (PFloat f)" "\<not> has_encode (PBytes bs)" "\<not> has_encode (PTuple vs)"
  "\<not> has_encode (PList vs)" "\<not> has_encode (PDict kvs)" "\<not> has_encode (PObj r)"
  "has_encode (PStr s)" "has_encode (PUserString s)"
  by (simp_all add: has_encode_def)

lemma no_encode_raises:
  "\<not> has_encode data \<Longrightarrow> py_encode_utf8 data = Inl AttributeError"
  by (cases data) (simp_all add: py_encode_utf8_def has_encode_def)

lemma recording_s3_write:
  "S3Adapter_write_data (recording_s3 cl) self file_name data (reqs, w) =
     (case py_encode_utf8 data of
        Inl e \<Rightarrow> (Inl e, self, (reqs, w))
      | Inr body \<Rightarrow>
          (case s3_put cl (Child (bucket self) file_name) body w of
             (Inl e, w1) \<Rightarrow>
               (Inl e, self, (reqs @ [PutObject (Child (bucket self) file_name) body], w1))
           | (Inr x, w1) \<Rightarrow>
               (Inr PNone, self, (reqs @ [PutObject (Child (bucket self) file_name) body], w1))))"
  by (simp add: S3Adapter_write_data_def recording_s3_def recorded_apply
      split: sum.split prod.split)

text \<open>
  C10. \<open>write_data\<close> of the object-storage adapter calls \<open>data.encode('utf-8')\<close>
  before it calls the store, and checks no type itself. For every argument that has no
  \<open>encode\<close> attribute (\<open>None\<close>, a \<open>bool\<close>, an \<open>int\<close>, a \<open>float\<close>, \<open>bytes\<close>,
  a tuple, a list, a dict, a client object) the call raises \<open>AttributeError\<close>, no
  request reaches the client and the world of the store is left as it was. An argument
  that is no \<open>str\<close> but has \<open>encode\<close> is accepted: a \<open>UserString\<close> is encoded and
  put exactly as the \<open>str\<close> it wraps.
\<close>

theorem s3_write_data_encodes_without_type_check:
  "(\<not> has_encode data \<longrightarrow>
      S3Adapter_write_data cl self file_name data w = (Inl AttributeError, self, w)
      \<and> S3Adapter_write_data (recording_s3 cl) self file_name data (reqs, w)
          = (Inl AttributeError, self, (reqs, w)))
   \<and> \<not> has_encode PNone \<and> \<not> has_encode (PBool b) \<and> \<not> has_encode (PInt n)
   \<and> \<not> has_encode (PFloat f) \<and> \<not> has_encode (PBytes bs) \<and> \<not> has_encode (PTuple vs)
   \<and> \<not> has_encode (PList vs) \<and> \<not> has_encode (PDict kvs) \<and> \<not> has_encode (PObj r)
   \<and> \<not> is_str (PUserString s)
   \<and> S3Adapter_write_data cl self file_name (PUserString s) w
       = S3Adapter_write_data cl self file_name (PStr s) w
   \<and> (utf8_encode s = Inr body \<longrightarrow>
        S3Adapter_write_data (recording_s3 cl) self file_name (PUserString s) (reqs, w) =
          (case s3_put cl (Child (bucket self) file_name) body w of
             (Inl e, w1) \<Rightarrow>
               (Inl e, self, (reqs @ [PutObject (Child (bucket self) file_name) body], w1))
           | (Inr x, w1) \<Rightarrow>
               (Inr PNone, self,
                (reqs @ [PutObject (Child (bucket self) file_name) body], w1))))"
proof -
  have a: "\<not> has_encode data \<longrightarrow>
      S3Adapter_write_data cl self file_name data w = (Inl AttributeError, self, w)
      \<and> S3Adapter_write_data (recording_s3 cl) self file_name data (reqs, w)
          = (Inl AttributeError, self, (reqs, w))"
    by (simp add: recording_s3_write no_encode_raises S3Adapter_write_data_def)
  have b: "S3Adapter_write_data cl self file_name (PUserString s) w
       = S3Adapter_write_data cl self file_name (PStr s) w"
    by (simp add: S3Adapter_write_data_def py_encode_utf8_def)
  have c: "utf8_encode s = Inr body \<longrightarrow>
        S3Adapter_write_data (recording_s3 cl) self file_name (PUserString s) (reqs, w) =
          (case s3_put cl (Child (bucket self) file_name) body w of
             (Inl e, w1) \<Rightarrow>
               (Inl e, self, (reqs @ [PutObject (Child (bucket self) file_name) body], w1))
           | (Inr x, w1) \<Rightarrow>
               (Inr PNone, self,
                (reqs @ [PutObject (Child (bucket self) file_name) body], w1)))"
    by (simp add: recording_s3_write py_encode_utf8_def)
  show ?thesis using a b c by (simp add: has_encode_values is_str_def)
qed

theorem s3_write_data_encodes_without_type_check_witness:
  "S3Adapter_write_data (recording_s3 reference_s3)
     \<lparr>s3 = Ref 0, bucket = Child (Ref 0) (str_lit ''mybucket'')\<rparr> (str_lit ''f.txt'')
     (PBytes [104, 105])
     ([], \<lparr>objects = Map.empty, bodies = Map.empty, s3_fresh = 1\<rparr>)
   = (Inl AttributeError, \<lparr>s3 = Ref 0, bucket = Child (Ref 0) (str_lit ''mybucket'')\<rparr>,
      ([], \<lparr>objects = Map.empty, bodies = Map.empty, s3_fresh = 1\<rparr>))
   \<and> S3Adapter_write_data reference_s3
     \<lparr>s3 = Ref 0, bucket = Child (Ref 0) (str_lit ''mybucket'')\<rparr> (str_lit ''f.txt'')
     (PInt 42) \<lparr>objects = Map.empty, bodies = Map.empty, s3_fresh = 1\<rparr>
   = (Inl AttributeError, \<lparr>s3 = Ref 0, bucket = Child (Ref 0) (str_lit ''mybucket'')\<rparr>,
      \<lparr>objects = Map.empty, bodies = Map.empty, s3_fresh = 1\<rparr>)
   \<and> S3Adapter_write_data (recording_s3 scripted_s3)
     \<lparr>s3 = Ref 0, bucket = Child (Ref 0) (str_lit ''mybucket'')\<rparr> (str_lit ''f.txt'')
     (PUserString (str_lit ''hello'')) ([], [])
   = (Inr PNone, \<lparr>s3 = Ref 0, bucket = Child (Ref 0) (str_lit ''mybucket'')\<rparr>,
      ([PutObject (Child (Child (Ref 0) (str_lit ''mybucket'')) (str_lit ''f.txt''))
          [104, 101, 108, 108, 111]], []))"
  using s3_write_data_encodes_without_type_check [where data = "PBytes [104, 105]"
      and cl = reference_s3
      and self = "\<lparr>s3 = Ref 0, bucket = Child (Ref 0) (str_lit ''mybucket'')\<rparr>"
      and file_name = "str_lit ''f.txt''"
      and w = "\<lparr>objects = Map.empty, bodies = Map.empty, s3_fresh = 1\<rparr>" and reqs = "[]"]
    s3_write_data_encodes_without_type_check [where data = "PInt 42"
      and cl = reference_s3
      and self = "\<lparr>s3 = Ref 0, bucket = Child (Ref 0) (str_lit ''mybucket'')\<rparr>"
      and file_name = "str_lit ''f.txt''"
      and w = "\<lparr>objects = Map.empty, bodies = Map.empty, s3_fresh = 1\<rparr>" and reqs = "[]"]
    s3_write_data_encodes_without_type_check [where s = "str_lit ''hello''"
      and body = "[104, 101, 108, 108, 111]" and cl = scripted_s3
      and self = "\<lparr>s3 = Ref 0, bucket = Child (Ref 0) (str_lit ''mybucket'')\<rparr>"
      and file_name = "str_lit ''f.txt''" and w = "[]" and reqs = "[]"]
  by (simp add: has_encode_def str_lit_def encode_codepoint_def scripted_s3_def scripted_def)

text \<open>
  The claim as stated, that every argument that is no \<open>str\<close> fails before anything
  is written, fails for such an argument that has \<open>encode\<close>:
  \<open>write_data("f.txt", UserString("hi"))\<close> returns normally, the client is asked to
  put the bytes of \<open>"hi"\<close>, and the store holds them afterwards.
\<close>

theorem s3_write_data_accepts_user_string:
  "\<not> is_str (PUserString (str_lit ''hi''))
   \<and> S3Adapter_write_data (recording_s3 reference_s3)
       \<lparr>s3 = Ref 0, bucket = Child (Ref 0) (str_lit ''mybucket'')\<rparr> (str_lit ''f.txt'')
       (PUserString (str_lit ''hi''))
       ([], \<lparr>objects = Map.empty, bodies = Map.empty, s3_fresh = 1\<rparr>)
     = (Inr PNone, \<lparr>s3 = Ref 0, bucket = Child (Ref 0) (str_lit ''mybucket'')\<rparr>,
        ([PutObject (Child (Child (Ref 0) (str_lit ''mybucket'')) (str_lit ''f.txt''))
            [104, 105]],
         \<lparr>objects = [Child (Child (Ref 0) (str_lit ''mybucket'')) (str_lit ''f.txt'')
                       \<mapsto> [104, 105]],
           bodies = Map.empty, s3_fresh = 1\<rparr>))"
  by (simp add: is_str_def recording_s3_write py_encode_utf8_def str_lit_def
      encode_codepoint_def reference_s3_def reference_put_def)

section \<open>The adapter instances are never reassigned\<close>

lemma MySQLAdapter_read_data_self: "fst (snd (MySQLAdapter_read_data cl self t w)) = self"
  by (simp add: MySQLAdapter_read_data_def split: prod.split sum.split)

lemma MySQLAdapter_write_data_self: "fst (snd (MySQLAdapter_write_data cl self t d w)) = self"
  by (simp add: MySQLAdapter_write_data_def split: prod.split sum.split)

lemma MongoDBAdapter_read_data_self: "fst (snd (MongoDBAdapter_read_data cl self t w)) = self"
  by (simp add: MongoDBAdapter_read_data_def Let_def split: prod.split sum.split)

lemma MongoDBAdapter_write_data_self:
  "fst (snd (MongoDBAdapter_write_data cl self t d w)) = self"
  by (simp add: MongoDBAdapter_write_data_def Let_def split: prod.split sum.split)

lemma S3Adapter_read_data_self: "fst (snd (S3Adapter_read_data cl self t w)) = self"
  by (simp add: S3Adapter_read_data_def Let_def split: prod.split sum.split pyval.split)

lemma S3Adapter_write_data_self: "fst (snd (S3Adapter_write_data cl self t d w)) = self"
  by (simp add: S3Adapter_write_data_def Let_def split: prod.split sum.split)

lemma TemperatureSensorAdapter_get_temperature_self:
  "fst (snd (TemperatureSensorAdapter_get_temperature self h)) = self"
  by (simp add: TemperatureSensorAdapter_get_temperature_def Let_def split: sum.split)

lemma run_operations_self:
  assumes "\<And>x s w. fst (snd (perform cls x s w)) = s"
  shows "fst (run_operations cls xs self w) = self"
proof (induction xs arbitrary: w)
  case Nil
  show ?case by simp
next
  case (Cons x xs)
  obtain r s' w' where p: "perform cls x self w = (r, s', w')"
    by (cases "perform cls x self w") auto
  with assms [of x self w] have "s' = self" by simp
  with p Cons show ?case by simp
qed

lemma perform_mysql_self: "fst (snd (perform (MySQLAdapter_class cl) x s w)) = s"
  by (cases x) (simp_all add: perform_def read_data_def write_data_def MySQLAdapter_class_def
      MySQLAdapter_read_data_self MySQLAdapter_write_data_self)

lemma perform_mongo_self: "fst (snd (perform (MongoDBAdapter_class cl) x s w)) = s"
  by (cases x) (simp_all add: perform_def read_data_def write_data_def MongoDBAdapter_class_def
      MongoDBAdapter_read_data_self MongoDBAdapter_write_data_self)

lemma perform_s3_self: "fst (snd (perform (S3Adapter_class cl) x s w)) = s"
  by (cases x) (simp_all add: perform_def read_data_def write_data_def S3Adapter_class_def
      S3Adapter_read_data_self S3Adapter_write_data_self)

text \<open>
  C9. Every \<open>read_data\<close> and \<open>write_data\<close> call on every concrete adapter, and
  \<open>get_temperature\<close> on the sensor adapter, leaves the instance as it found it,
  whatever the client does and whether the call returns or raises; so does any sequence
  of calls made through the unified interface. The fields set by the constructors
  (\<open>connection\<close> and \<open>cursor\<close>, \<open>client\<close> and \<open>db\<close>, \<open>s3\<close> and \<open>bucket\<close>,
  \<open>fahrenheit_sensor\<close>) therefore keep their values.
\<close>

theorem adapter_instances_unchanged:
  "fst (snd (MySQLAdapter_read_data cl1 a1 i w1)) = a1
   \<and> fst (snd (MySQLAdapter_write_data cl1 a1 i d w1)) = a1
   \<and> fst (snd (MongoDBAdapter_read_data cl2 a2 i w2)) = a2
   \<and> fst (snd (MongoDBAdapter_write_data cl2 a2 i d w2)) = a2
   \<and> fst (snd (S3Adapter_read_data cl3 a3 i w3)) = a3
   \<and> fst (snd (S3Adapter_write_data cl3 a3 i d w3)) = a3
   \<and> fst (snd (TemperatureSensorAdapter_get_temperature a4 h)) = a4
   \<and> fst (run_operations (MySQLAdapter_class cl1) xs a1 w1) = a1
   \<and> fst (run_operations (MongoDBAdapter_class cl2) xs a2 w2) = a2
   \<and> fst (run_operations (S3Adapter_class cl3) xs a3 w3) = a3"
  by (simp add: MySQLAdapter_read_data_self MySQLAdapter_write_data_self
      MongoDBAdapter_read_data_self MongoDBAdapter_write_data_self
      S3Adapter_read_data_self S3Adapter_write_data_self
      TemperatureSensorAdapter_get_temperature_self
      run_operations_self perform_mysql_self perform_mongo_self perform_s3_self)

section \<open>The UTF-8 codec round trip\<close>

lemma div64_parts: "(c::nat) div 4096 * 4096 + c div 64 mod 64 * 64 + c mod 64 = c"
proof -
  define q where "q = c div 64"
  define a where "a = q div 64"
  define b where "b = q mod 64"
  define r where "r = c mod 64"
  have 1: "a * 64 + b = q" by (simp add: a_def b_def)
  have 2: "q * 64 + r = c" by (simp add: q_def r_def)
  have 3: "c div 4096 = a" by (simp add: a_def q_def div_mult2_eq)
  from 1 2 have "a * 4096 + b * 64 + r = c" by arith
  then show ?thesis by (simp add: 3 b_def q_def r_def)
qed

lemma div64_parts4:
  "(c::nat) div 262144 * 262144 + c div 4096 mod 64 * 4096 + c div 64 mod 64 * 64 + c mod 64 = c"
proof -
  define q where "q = c div 4096"
  define a where "a = q div 64"
  define b where "b = q mod 64"
  define r where "r = c div 64 mod 64 * 64 + c mod 64"
  have 1: "a * 64 + b = q" by (simp add: a_def b_def)
  have 2: "q * 4096 + r = c" using div64_parts [of c] by (simp add: q_def r_def)
  have 3: "c div 262144 = a" by (simp add: a_def q_def div_mult2_eq)
  from 1 2 have "a * 262144 + b * 4096 + r = c" by arith
  then show ?thesis by (simp add: 3 b_def q_def r_def)
qed

lemma two_byte_lead: "0x80 \<le> (c::nat) \<Longrightarrow> c < 0x800 \<Longrightarrow> 2 \<le> c div 64 \<and> c div 64 < 32"
  using div_le_mono [of 128 c 64] less_mult_imp_div_less [of c 32 64] by simp

lemma three_byte_lead: "(c::nat) < 0x10000 \<Longrightarrow> c div 4096 < 16"
  using less_mult_imp_div_less [of c 16 4096] by simp

lemma four_byte_lead: "(c::nat) < 0x110000 \<Longrightarrow> c div 262144 < 5"
  using less_mult_imp_div_less [of c 5 262144] by simp

lemma decode_one_byte: "b < 0x80 \<Longrightarrow> utf8_decode (b # r) = decoded b (utf8_decode r)"
  by simp

lemma decode_two_bytes:
  "2 \<le> a \<Longrightarrow> a < 32 \<Longrightarrow> b < 64 \<Longrightarrow>
     utf8_decode ((0xC0 + a) # (0x80 + b) # r) = decoded (a * 64 + b) (utf8_decode r)"
  by (simp add: continuation_def)

lemma decode_three_bytes:
  "a < 16 \<Longrightarrow> b < 64 \<Longrightarrow> d < 64 \<Longrightarrow> 0x800 \<le> a * 4096 + b * 64 + d \<Longrightarrow>
   a * 4096 + b * 64 + d < 0xD800 \<or> 0xE000 \<le> a * 4096 + b * 64 + d \<Longrightarrow>
     utf8_decode ((0xE0 + a) # (0x80 + b) # (0x80 + d) # r)
       = decoded (a * 4096 + b * 64 + d) (utf8_decode r)"
  by (simp add: continuation_def Let_def)

lemma decode_four_bytes:
  "a < 5 \<Longrightarrow> b < 64 \<Longrightarrow> d < 64 \<Longrightarrow> e < 64 \<Longrightarrow>
   0x10000 \<le> a * 262144 + b * 4096 + d * 64 + e \<Longrightarrow>
   a * 262144 + b * 4096 + d * 64 + e < 0x110000 \<Longrightarrow>
     utf8_decode ((0xF0 + a) # (0x80 + b) # (0x80 + d) # (0x80 + e) # r)
       = decoded (a * 262144 + b * 4096 + d * 64 + e) (utf8_decode r)"
  by (simp add: continuation_def Let_def)

lemma decode_encode_codepoint:
  assumes "encode_codepoint c = Some bs"
  shows "utf8_decode (bs @ r) = decoded c (utf8_decode r)"
proof -
  consider (one) "c < 0x80"
    | (two) "0x80 \<le> c" "c < 0x800"
    | (three) "0x800 \<le> c" "c < 0x10000" "c < 0xD800 \<or> 0xE000 \<le> c"
    | (four) "0x10000 \<le> c" "c < 0x110000"
    | (none) "0x110000 \<le> c \<or> (0xD800 \<le> c \<and> c < 0xE000)"
    by linarith
  then show ?thesis
  proof cases
    case one
    with assms have "bs = [c]" by (simp add: encode_codepoint_def)
    with one show ?thesis by (simp add: decode_one_byte)
  next
    case two
    with assms have bs: "bs = [0xC0 + c div 64, 0x80 + c mod 64]"
      by (simp add: encode_codepoint_def)
    have "c div 64 * 64 + c mod 64 = c" by simp
    with decode_two_bytes [of "c div 64" "c mod 64" r] two_byte_lead [OF two]
    show ?thesis by (simp add: bs)
  next
    case three
    with assms have bs: "bs = [0xE0 + c div 4096, 0x80 + c div 64 mod 64, 0x80 + c mod 64]"
      by (auto simp: encode_codepoint_def)
    from decode_three_bytes [of "c div 4096" "c div 64 mod 64" "c mod 64" r]
      three_byte_lead [OF three(2)] three
    show ?thesis by (simp add: bs div64_parts)
  next
    case four
    with assms have bs: "bs = [0xF0 + c div 262144, 0x80 + c div 4096 mod 64,
        0x80 + c div 64 mod 64, 0x80 + c mod 64]"
      by (simp add: encode_codepoint_def)
    from decode_four_bytes [of "c div 262144" "c div 4096 mod 64" "c div 64 mod 64" "c mod 64" r]
      four_byte_lead [OF four(2)] four
    show ?thesis by (simp add: bs div64_parts4)
  next
    case none
    with assms show ?thesis by (auto simp: encode_codepoint_def)
  qed
qed

lemma utf8_roundtrip: "utf8_encode s = Inr bs \<Longrightarrow> utf8_decode bs = Inr s"
proof (induction s arbitrary: bs)
  case Nil
  then show ?case by simp
next
  case (Cons c cs)
  then obtain b r where b: "encode_codepoint c = Some b" and r: "utf8_encode cs = Inr r"
    and bs: "bs = b @ r"
    by (auto split: option.splits sum.splits)
  from Cons.IH [OF r] have "utf8_decode r = Inr cs" .
  with decode_encode_codepoint [OF b, of r] show ?case
    by (simp add: bs decoded_def)
qed

lemma encode_codepoint_total:
  "c < 0xD800 \<or> (0xE000 \<le> c \<and> c < 0x110000) \<Longrightarrow> \<exists>bs. encode_codepoint c = Some bs"
  by (auto simp: encode_codepoint_def)

lemma utf8_encode_total: "unicode_text s \<Longrightarrow> \<exists>bs. utf8_encode s = Inr bs"
proof (induction s)
  case Nil
  show ?case by simp
next
  case (Cons c cs)
  then obtain r where r: "utf8_encode cs = Inr r" by (auto simp: unicode_text_def)
  from Cons.prems obtain b where "encode_codepoint c = Some b"
    using encode_codepoint_total [of c] by (auto simp: unicode_text_def)
  with r show ?case by simp
qed

section \<open>Statements of the relational adapter on the reference store\<close>

lemma count_placeholders_skip: "a \<noteq> 37 \<Longrightarrow> count_placeholders (a # xs) = count_placeholders xs"
  by (cases xs) simp_all

lemma count_placeholders_before_space:
  "count_placeholders (xs @ 32 # ys) = count_placeholders xs + count_placeholders ys"
proof (induction xs rule: count_placeholders.induct)
  case (1 a b r)
  then show ?case by simp
qed (simp_all add: count_placeholders_skip)

lemma count_placeholders_none: "37 \<notin> set xs \<Longrightarrow> count_placeholders xs = 0"
  by (induction xs rule: count_placeholders.induct) auto

lemma identifier_no_placeholder: "is_identifier t \<Longrightarrow> count_placeholders t = 0"
proof (rule count_placeholders_none)
  assume "is_identifier t"
  then have "\<forall>c \<in> set t. identifier_char c" by (simp add: is_identifier_def list_all_iff)
  moreover have "\<not> identifier_char 37" by (simp add: identifier_char_def)
  ultimately show "37 \<notin> set t" by blast
qed

lemma takeWhile_identifier:
  "list_all identifier_char t \<Longrightarrow> takeWhile identifier_char (t @ 32 # ys) = t"
  by (induction t) (simp_all add: identifier_char_def)

lemma dropWhile_identifier:
  "list_all identifier_char t \<Longrightarrow> dropWhile identifier_char (t @ 32 # ys) = 32 # ys"
  by (induction t) (simp_all add: identifier_char_def)

lemma dropWhile_identifier_conv:
  "dropWhile identifier_char (t @ 32 # ys) = 32 # ys \<Longrightarrow> list_all identifier_char t"
proof (induction t)
  case Nil
  show ?case by simp
next
  case (Cons a t)
  show ?case
  proof (cases "identifier_char a")
    case True
    with Cons show ?thesis by simp
  next
    case False
    with Cons.prems have "a # t @ 32 # ys = 32 # ys" by simp
    then have "length (a # t @ 32 # ys) = length (32 # ys)" by (rule arg_cong)
    then show ?thesis by simp
  qed
qed

lemma count_placeholders_values: "count_placeholders (str_lit ''VALUES (%s, %s, %s)'') = 3"
  by (simp add: str_lit_def)

lemma insert_statement_shape:
  "insert_statement t = str_lit ''INSERT INTO'' @ 32 # t @ 32 # str_lit ''VALUES (%s, %s, %s)''"
  by (simp add: insert_statement_def str_lit_def)

lemma count_placeholders_insert_statement:
  "count_placeholders (insert_statement t) = count_placeholders t + 3"
proof -
  have "count_placeholders (str_lit ''INSERT INTO'') = 0"
    by (simp add: str_lit_def)
  then show ?thesis
    by (simp add: insert_statement_shape count_placeholders_before_space
        count_placeholders_values)
qed

lemma parse_select_statement:
  "parse_statement (select_statement t) = (if is_identifier t then Select t else Unparsed)"
proof -
  have t14: "take 14 (select_statement t) = str_lit ''SELECT * FROM ''"
    and d14: "drop 14 (select_statement t) = t"
    by (simp_all add: select_statement_def str_lit_def)
  have noins: "take 12 (select_statement t) \<noteq> str_lit ''INSERT INTO ''"
  proof
    assume "take 12 (select_statement t) = str_lit ''INSERT INTO ''"
    then have "hd (take 12 (select_statement t)) = hd (str_lit ''INSERT INTO '')" by simp
    then show False by (simp add: select_statement_def str_lit_def)
  qed
  show ?thesis
    unfolding parse_statement_def t14 d14 using noins by simp
qed

lemma insert_statement_take: "take 12 (insert_statement t) = str_lit ''INSERT INTO ''"
  by (simp add: insert_statement_def str_lit_def)

lemma insert_statement_drop:
  "drop 12 (insert_statement t) = t @ 32 # str_lit ''VALUES (%s, %s, %s)''"
  by (simp add: insert_statement_def str_lit_def)

lemma values_suffix: "str_lit '' VALUES (%s, %s, %s)'' = 32 # str_lit ''VALUES (%s, %s, %s)''"
  by (simp add: str_lit_def)

lemma insert_statement_not_select:
  "take 14 (insert_statement t) \<noteq> str_lit ''SELECT * FROM ''"
proof
  assume "take 14 (insert_statement t) = str_lit ''SELECT * FROM ''"
  then have "hd (take 14 (insert_statement t)) = hd (str_lit ''SELECT * FROM '')" by simp
  then show False by (simp add: insert_statement_def str_lit_def)
qed

lemma parse_insert_statement:
  "parse_statement (insert_statement t) = (if is_identifier t then Insert t else Unparsed)"
proof (cases "list_all identifier_char t")
  case True
  have "takeWhile identifier_char (drop 12 (insert_statement t)) = t"
    and "dropWhile identifier_char (drop 12 (insert_statement t))
           = str_lit '' VALUES (%s, %s, %s)''"
    by (simp_all only: insert_statement_drop values_suffix takeWhile_identifier [OF True]
        dropWhile_identifier [OF True])
  then show ?thesis
    unfolding parse_statement_def
    by (simp only: insert_statement_take insert_statement_not_select) simp
next
  case False
  then have "dropWhile identifier_char (drop 12 (insert_statement t))
      \<noteq> str_lit '' VALUES (%s, %s, %s)''"
    unfolding insert_statement_drop values_suffix using dropWhile_identifier_conv by blast
  moreover from False have "\<not> is_identifier t" by (simp add: is_identifier_def)
  ultimately show ?thesis
    unfolding parse_statement_def
    by (simp only: insert_statement_not_select) simp
qed

section \<open>The adapters on the reference stores\<close>

lemma reference_mysql_write:
  "MySQLAdapter_write_data reference_mysql a t d w =
     (case bind_parameters (insert_statement t) (Some d) of
        Inl e \<Rightarrow> (Inl e, a, w)
      | Inr vs \<Rightarrow>
          if is_identifier t then
            (case tables w t of
               None \<Rightarrow> (Inl (StoreError ''ProgrammingError''), a, w)
             | Some (n, rows) \<Rightarrow>
                 if length vs = n
                 then (Inr PNone, a,
                       w\<lparr>tables := (tables w)(t \<mapsto> (n, rows @ [PTuple vs])),
                         durable := (tables w)(t \<mapsto> (n, rows @ [PTuple vs]))\<rparr>)
                 else (Inl (StoreError ''DataError''), a, w))
          else (Inl (StoreError ''ProgrammingError''), a, w))"
  by (simp add: MySQLAdapter_write_data_def reference_mysql_def reference_execute_def
      parse_insert_statement split: sum.split option.split)

lemma reference_mysql_read:
  "MySQLAdapter_read_data reference_mysql a t w =
     (if is_identifier t then
        (case tables w t of
           None \<Rightarrow> (Inl (StoreError ''ProgrammingError''), a, w)
         | Some (n, rows) \<Rightarrow> (Inr (PList rows), a, w\<lparr>result_sets := (result_sets w)(cursor a := None)\<rparr>))
      else (Inl (StoreError ''ProgrammingError''), a, w))"
  by (simp add: MySQLAdapter_read_data_def reference_mysql_def reference_execute_def
      reference_fetchall_def bind_parameters_def parse_select_statement split: option.split)

lemma bind_three:
  "is_identifier t \<Longrightarrow>
     bind_parameters (insert_statement t) (Some (PTuple [x, y, z])) = Inr [x, y, z]"
  by (simp add: bind_parameters_def count_placeholders_insert_statement
      identifier_no_placeholder)

lemma reference_mongo_write:
  "MongoDBAdapter_write_data reference_mongo a c d w =
     (if is_dict d
      then (Inr PNone, a,
            w\<lparr>collections := (collections w)
                 (Child (db a) c := collections w (Child (db a) c) @ [d])\<rparr>)
      else (Inl TypeError, a, w))"
  by (simp add: MongoDBAdapter_write_data_def reference_mongo_def reference_insert_one_def Let_def)

lemma matches_all: "matches (PDict []) doc"
  by (simp add: matches_def)

lemma reference_mongo_read:
  "MongoDBAdapter_read_data reference_mongo a c w =
     (Inr (PList (collections w (Child (db a) c))), a,
      w\<lparr>open_cursors := (open_cursors w)(Ref (mongo_fresh w) := None),
        mongo_fresh := Suc (mongo_fresh w)\<rparr>)"
  by (simp add: MongoDBAdapter_read_data_def reference_mongo_def reference_find_def
      reference_list_def is_dict_def matches_all)

lemma reference_s3_write:
  "S3Adapter_write_data reference_s3 a k d w =
     (case py_encode_utf8 d of
        Inl e \<Rightarrow> (Inl e, a, w)
      | Inr body \<Rightarrow> (Inr PNone, a, w\<lparr>objects := (objects w)(Child (bucket a) k \<mapsto> body)\<rparr>))"
  by (simp add: S3Adapter_write_data_def reference_s3_def reference_put_def split: sum.split)

lemma reference_s3_read:
  "objects w (Child (bucket a) k) = Some body \<Longrightarrow>
     fst (S3Adapter_read_data reference_s3 a k w) =
       (case utf8_decode body of Inl e \<Rightarrow> Inl e | Inr text \<Rightarrow> Inr (PStr text))"
  by (simp add: S3Adapter_read_data_def reference_s3_def reference_get_def reference_read_def
      py_getitem_def str_key_def py_decode_utf8_def split: sum.split)

section \<open>The insert of the relational adapter\<close>

text \<open>
  C5, as the code has it. For every table name and payload, \<open>write_data\<close> of the
  relational adapter makes one \<open>execute\<close> request: the statement
  \<open>"INSERT INTO " + table_name + " VALUES (%s, %s, %s)"\<close> with the payload as its
  parameters. When that request returns, the session is committed at once and nothing
  else is requested; when it raises, the exception is the outcome and no commit is
  requested. No rollback is ever requested. The statement holds the three placeholders
  of its \<open>VALUES\<close> clause and, besides, every \<open>%s\<close> that \<open>table_name\<close> holds.
\<close>

theorem mysql_write_data_insert_then_commit:
  "MySQLAdapter_write_data (recording_mysql cl) self table_name data (reqs, w) =
     (case mysql_execute cl (cursor self)
             (str_lit ''INSERT INTO '' @ table_name @ str_lit '' VALUES (%s, %s, %s)'')
             (Some data) w of
        (Inl e, w1) \<Rightarrow>
          (Inl e, self,
           (reqs @ [Execute (cursor self)
                      (str_lit ''INSERT INTO '' @ table_name @ str_lit '' VALUES (%s, %s, %s)'')
                      (Some data)], w1))
      | (Inr x, w1) \<Rightarrow>
          (case mysql_commit cl (connection self) w1 of
             (Inl e, w2) \<Rightarrow>
               (Inl e, self,
                (reqs @ [Execute (cursor self)
                           (str_lit ''INSERT INTO '' @ table_name
                              @ str_lit '' VALUES (%s, %s, %s)'')
                           (Some data),
                         Commit (connection self)], w2))
           | (Inr y, w2) \<Rightarrow>
               (Inr PNone, self,
                (reqs @ [Execute (cursor self)
                           (str_lit ''INSERT INTO '' @ table_name
                              @ str_lit '' VALUES (%s, %s, %s)'')
                           (Some data),
                         Commit (connection self)], w2))))
   \<and> count_placeholders
         (str_lit ''INSERT INTO '' @ table_name @ str_lit '' VALUES (%s, %s, %s)'')
       = count_placeholders table_name + 3"
proof -
  have "count_placeholders (insert_statement table_name) = count_placeholders table_name + 3"
    by (rule count_placeholders_insert_statement)
  then show ?thesis
    by (simp add: MySQLAdapter_write_data_def recording_mysql_def recorded_apply
        insert_statement_def split: prod.split sum.split)
qed

text \<open>
  The claim as stated fails for the table name \<open>t%s\<close>: the statement then holds four
  placeholders, the reference store refuses the three values, and the session is not
  committed.
\<close>

theorem mysql_write_data_placeholder_in_table_name:
  "count_placeholders (insert_statement (str_lit ''t%s'')) = 4
   \<and> MySQLAdapter_write_data (recording_mysql reference_mysql)
        \<lparr>connection = Ref 0, cursor = Ref 1\<rparr> (str_lit ''t%s'')
        (PTuple [PInt 1, PStr (str_lit ''a''), PStr (str_lit ''b'')])
        ([], \<lparr>tables = [str_lit ''t'' \<mapsto> (3, [])], durable = [str_lit ''t'' \<mapsto> (3, [])],
               result_sets = Map.empty, mysql_fresh = 2\<rparr>)
      = (Inl (StoreError ''ProgrammingError''), \<lparr>connection = Ref 0, cursor = Ref 1\<rparr>,
         ([Execute (Ref 1) (str_lit ''INSERT INTO t%s VALUES (%s, %s, %s)'')
             (Some (PTuple [PInt 1, PStr (str_lit ''a''), PStr (str_lit ''b'')]))],
          \<lparr>tables = [str_lit ''t'' \<mapsto> (3, [])], durable = [str_lit ''t'' \<mapsto> (3, [])],
            result_sets = Map.empty, mysql_fresh = 2\<rparr>))"
proof -
  have n: "count_placeholders (insert_statement (str_lit ''t%s'')) = 4"
    by (simp add: count_placeholders_insert_statement) (simp add: str_lit_def)
  have s: "insert_statement (str_lit ''t%s'') = str_lit ''INSERT INTO t%s VALUES (%s, %s, %s)''"
    by (simp add: insert_statement_def str_lit_def)
  show ?thesis
    using n
    by (simp add: MySQLAdapter_write_data_def recording_mysql_def recorded_apply
        reference_mysql_def reference_execute_def bind_parameters_def s [symmetric])
qed

section \<open>The read of the document adapter\<close>

text \<open>
  C7. For every collection name, \<open>read_data\<close> of the document adapter asks for
  \<open>find\<close> on the named collection with the empty filter and drains the cursor into
  a list, which it returns whole. On the reference store the result is the sequence of
  all documents the store holds for the collection, and the collections are left as
  they were.
\<close>

theorem mongo_read_data_returns_whole_collection:
  "MongoDBAdapter_read_data (recording_mongo cl) self collection_name (reqs, w) =
     (case mongo_find cl (Child (db self) collection_name) (PDict []) w of
        (Inl e, w1) \<Rightarrow>
          (Inl e, self, (reqs @ [Find (Child (db self) collection_name) (PDict [])], w1))
      | (Inr found, w1) \<Rightarrow>
          (case mongo_list cl found w1 of
             (Inl e, w2) \<Rightarrow>
               (Inl e, self,
                (reqs @ [Find (Child (db self) collection_name) (PDict []), ListCursor found],
                 w2))
           | (Inr docs, w2) \<Rightarrow>
               (Inr (PList docs), self,
                (reqs @ [Find (Child (db self) collection_name) (PDict []), ListCursor found],
                 w2))))
   \<and> fst (MongoDBAdapter_read_data reference_mongo self collection_name m)
       = Inr (PList (collections m (Child (db self) collection_name)))
   \<and> collections (snd (snd (MongoDBAdapter_read_data reference_mongo self collection_name m)))
       = collections m"
  by (simp add: reference_mongo_read)
     (simp add: MongoDBAdapter_read_data_def recording_mongo_def recorded_apply Let_def
        split: prod.split sum.split)

section \<open>Failures of the Store Clients\<close>

text \<open>
  C8. For every adapter and both operations, an exception raised by any call into the
  Store Client is the outcome of the operation, unchanged: the adapter returns the very
  exception, and the world is the one the failing call left, so nothing is caught,
  translated, retried or wrapped. The call sites are \<open>execute\<close>, \<open>fetchall\<close> and
  \<open>commit\<close> of the relational client, \<open>find\<close>, the draining of the cursor and
  \<open>insert_one\<close> of the document client, and \<open>get\<close>, the read of the body and
  \<open>put\<close> of the object-storage client.
\<close>

theorem store_client_failures_propagate:
  "(mysql_execute cl1 (cursor a1) (select_statement t) None w1 = (Inl e, w1') \<longrightarrow>
      MySQLAdapter_read_data cl1 a1 t w1 = (Inl e, a1, w1'))
   \<and> (mysql_execute cl1 (cursor a1) (select_statement t) None w1 = (Inr v, w1')
        \<and> mysql_fetchall cl1 (cursor a1) w1' = (Inl e, w1'') \<longrightarrow>
      MySQLAdapter_read_data cl1 a1 t w1 = (Inl e, a1, w1''))
   \<and> (mysql_execute cl1 (cursor a1) (insert_statement t) (Some d) w1 = (Inl e, w1') \<longrightarrow>
      MySQLAdapter_write_data cl1 a1 t d w1 = (Inl e, a1, w1'))
   \<and> (mysql_execute cl1 (cursor a1) (insert_statement t) (Some d) w1 = (Inr v, w1')
        \<and> mysql_commit cl1 (connection a1) w1' = (Inl e, w1'') \<longrightarrow>
      MySQLAdapter_write_data cl1 a1 t d w1 = (Inl e, a1, w1''))
   \<and> (mongo_find cl2 (Child (db a2) t) (PDict []) w2 = (Inl e, w2') \<longrightarrow>
      MongoDBAdapter_read_data cl2 a2 t w2 = (Inl e, a2, w2'))
   \<and> (mongo_find cl2 (Child (db a2) t) (PDict []) w2 = (Inr k, w2')
        \<and> mongo_list cl2 k w2' = (Inl e, w2'') \<longrightarrow>
      MongoDBAdapter_read_data cl2 a2 t w2 = (Inl e, a2, w2''))
   \<and> (mongo_insert_one cl2 (Child (db a2) t) d w2 = (Inl e, w2') \<longrightarrow>
      MongoDBAdapter_write_data cl2 a2 t d w2 = (Inl e, a2, w2'))
   \<and> (s3_get cl3 (Child (bucket a3) t) w3 = (Inl e, w3') \<longrightarrow>
      S3Adapter_read_data cl3 a3 t w3 = (Inl e, a3, w3'))
   \<and> (s3_get cl3 (Child (bucket a3) t) w3 = (Inr resp, w3')
        \<and> py_getitem resp (str_lit ''Body'') = Inr (PObj b)
        \<and> s3_read cl3 b w3' = (Inl e, w3'') \<longrightarrow>
      S3Adapter_read_data cl3 a3 t w3 = (Inl e, a3, w3''))
   \<and> (py_encode_utf8 d = Inr body \<and> s3_put cl3 (Child (bucket a3) t) body w3 = (Inl e, w3') \<longrightarrow>
      S3Adapter_write_data cl3 a3 t d w3 = (Inl e, a3, w3'))"
  by (simp add: MySQLAdapter_read_data_def MySQLAdapter_write_data_def
      MongoDBAdapter_read_data_def MongoDBAdapter_write_data_def
      S3Adapter_read_data_def S3Adapter_write_data_def Let_def)

lemma encode_hello: "py_encode_utf8 (PStr (str_lit ''hello'')) = Inr [104, 101, 108, 108, 111]"
  by (simp add: py_encode_utf8_def str_lit_def encode_codepoint_def)

theorem store_client_failures_propagate_witness:
  "MySQLAdapter_read_data scripted_mysql \<lparr>connection = Ref 0, cursor = Ref 1\<rparr>
       (str_lit ''mytable'') [Some (StoreError ''OperationalError'')]
     = (Inl (StoreError ''OperationalError''), \<lparr>connection = Ref 0, cursor = Ref 1\<rparr>, [])
   \<and> MySQLAdapter_read_data scripted_mysql \<lparr>connection = Ref 0, cursor = Ref 1\<rparr>
       (str_lit ''mytable'') [None, Some (StoreError ''OperationalError'')]
     = (Inl (StoreError ''OperationalError''), \<lparr>connection = Ref 0, cursor = Ref 1\<rparr>, [])
   \<and> MySQLAdapter_write_data scripted_mysql \<lparr>connection = Ref 0, cursor = Ref 1\<rparr>
       (str_lit ''mytable'') (PStr (str_lit ''hello'')) [Some (StoreError ''OperationalError'')]
     = (Inl (StoreError ''OperationalError''), \<lparr>connection = Ref 0, cursor = Ref 1\<rparr>, [])
   \<and> MySQLAdapter_write_data scripted_mysql \<lparr>connection = Ref 0, cursor = Ref 1\<rparr>
       (str_lit ''mytable'') (PStr (str_lit ''hello''))
       [None, Some (StoreError ''OperationalError'')]
     = (Inl (StoreError ''OperationalError''), \<lparr>connection = Ref 0, cursor = Ref 1\<rparr>, [])
   \<and> MongoDBAdapter_read_data scripted_mongo \<lparr>client = Ref 0, db = Ref 2\<rparr>
       (str_lit ''mytable'') [Some (StoreError ''OperationalError'')]
     = (Inl (StoreError ''OperationalError''), \<lparr>client = Ref 0, db = Ref 2\<rparr>, [])
   \<and> MongoDBAdapter_read_data scripted_mongo \<lparr>client = Ref 0, db = Ref 2\<rparr>
       (str_lit ''mytable'') [None, Some (StoreError ''OperationalError'')]
     = (Inl (StoreError ''OperationalError''), \<lparr>client = Ref 0, db = Ref 2\<rparr>, [])
   \<and> MongoDBAdapter_write_data scripted_mongo \<lparr>client = Ref 0, db = Ref 2\<rparr>
       (str_lit ''mytable'') (PStr (str_lit ''hello'')) [Some (StoreError ''OperationalError'')]
     = (Inl (StoreError ''OperationalError''), \<lparr>client = Ref 0, db = Ref 2\<rparr>, [])
   \<and> S3Adapter_read_data scripted_s3 \<lparr>s3 = Ref 0, bucket = Ref 3\<rparr>
       (str_lit ''mytable'') [Some (StoreError ''OperationalError'')]
     = (Inl (StoreError ''OperationalError''), \<lparr>s3 = Ref 0, bucket = Ref 3\<rparr>, [])
   \<and> S3Adapter_read_data scripted_s3 \<lparr>s3 = Ref 0, bucket = Ref 3\<rparr>
       (str_lit ''mytable'') [None, Some (StoreError ''OperationalError'')]
     = (Inl (StoreError ''OperationalError''), \<lparr>s3 = Ref 0, bucket = Ref 3\<rparr>, [])
   \<and> S3Adapter_write_data scripted_s3 \<lparr>s3 = Ref 0, bucket = Ref 3\<rparr>
       (str_lit ''mytable'') (PStr (str_lit ''hello'')) [Some (StoreError ''OperationalError'')]
     = (Inl (StoreError ''OperationalError''), \<lparr>s3 = Ref 0, bucket = Ref 3\<rparr>, [])"
  using
    store_client_failures_propagate [where ?cl1.0 = scripted_mysql and ?a1.0 = "\<lparr>connection = Ref 0, cursor = Ref 1\<rparr>"
      and t = "str_lit ''mytable''" and d = "PStr (str_lit ''hello'')"
      and ?w1.0 = "[Some (StoreError ''OperationalError'')]"
      and e = "StoreError ''OperationalError''" and ?w1' = "[]"
      and ?cl2.0 = scripted_mongo and ?a2.0 = "\<lparr>client = Ref 0, db = Ref 2\<rparr>"
      and ?w2.0 = "[Some (StoreError ''OperationalError'')]" and ?w2' = "[]"
      and ?cl3.0 = scripted_s3 and ?a3.0 = "\<lparr>s3 = Ref 0, bucket = Ref 3\<rparr>"
      and ?w3.0 = "[Some (StoreError ''OperationalError'')]" and ?w3' = "[]"
      and body = "[104, 101, 108, 108, 111]"]
    store_client_failures_propagate [where ?cl1.0 = scripted_mysql and ?a1.0 = "\<lparr>connection = Ref 0, cursor = Ref 1\<rparr>"
      and t = "str_lit ''mytable''" and d = "PStr (str_lit ''hello'')"
      and ?w1.0 = "[None, Some (StoreError ''OperationalError'')]"
      and e = "StoreError ''OperationalError''" and v = PNone
      and ?w1' = "[Some (StoreError ''OperationalError'')]" and ?w1'' = "[]"
      and ?cl2.0 = scripted_mongo and ?a2.0 = "\<lparr>client = Ref 0, db = Ref 2\<rparr>"
      and ?w2.0 = "[None, Some (StoreError ''OperationalError'')]" and k = "Ref 1"
      and ?w2' = "[Some (StoreError ''OperationalError'')]" and ?w2'' = "[]"
      and ?cl3.0 = scripted_s3 and ?a3.0 = "\<lparr>s3 = Ref 0, bucket = Ref 3\<rparr>"
      and ?w3.0 = "[None, Some (StoreError ''OperationalError'')]"
      and resp = "PDict [(PStr (str_lit ''Body''), PObj (Ref 1))]" and b = "Ref 1"
      and ?w3' = "[Some (StoreError ''OperationalError'')]" and ?w3'' = "[]"]
  by (simp add: scripted_mysql_def scripted_mongo_def scripted_s3_def scripted_def
      encode_hello py_getitem_def str_key_def)

section \<open>Round trips\<close>

lemma s3_round_trip:
  assumes "utf8_encode s = Inr body"
  shows "S3Adapter_write_data reference_s3 a k (PStr s) w
           = (Inr PNone, a, w\<lparr>objects := (objects w)(Child (bucket a) k \<mapsto> body)\<rparr>)"
    and "fst (S3Adapter_read_data reference_s3 a k
                (w\<lparr>objects := (objects w)(Child (bucket a) k \<mapsto> body)\<rparr>)) = Inr (PStr s)"
proof -
  show "S3Adapter_write_data reference_s3 a k (PStr s) w
      = (Inr PNone, a, w\<lparr>objects := (objects w)(Child (bucket a) k \<mapsto> body)\<rparr>)"
    using assms by (simp add: reference_s3_write py_encode_utf8_def)
  have "objects (w\<lparr>objects := (objects w)(Child (bucket a) k \<mapsto> body)\<rparr>) (Child (bucket a) k)
      = Some body"
    by simp
  from reference_s3_read [OF this] utf8_roundtrip [OF assms]
  show "fst (S3Adapter_read_data reference_s3 a k
               (w\<lparr>objects := (objects w)(Child (bucket a) k \<mapsto> body)\<rparr>)) = Inr (PStr s)"
    by simp
qed

lemma unicode_text_hello: "unicode_text (str_lit ''hello'')"
  by (simp add: unicode_text_def str_lit_def)

text \<open>
  C1. On the reference stores, a write followed by a read of the same identifier gives
  back the payload, for every adapter and every correctly shaped payload: for the
  object-storage adapter every text of Unicode scalar values is written and read back
  exactly (encoding to UTF-8 and decoding again is the identity), so that
  \<open>write_data("f.txt", "hello")\<close> followed by \<open>read_data("f.txt")\<close> returns
  \<open>"hello"\<close>; for the document adapter every document is written and the read returns
  the collection with that document at its end; for the relational adapter every
  3-tuple written to a 3-column table named by an identifier is the last row the read
  returns.
\<close>

theorem write_then_read_round_trip:
  "(unicode_text s \<longrightarrow>
      (case S3Adapter_write_data reference_s3 a3 k (PStr s) w3 of
         (r, a, w) \<Rightarrow>
           r = Inr PNone \<and> fst (S3Adapter_read_data reference_s3 a k w) = Inr (PStr s)))
   \<and> (case S3Adapter_write_data reference_s3 a3 (str_lit ''f.txt'') (PStr (str_lit ''hello'')) w3 of
         (r, a, w) \<Rightarrow>
           fst (S3Adapter_read_data reference_s3 a (str_lit ''f.txt'') w)
             = Inr (PStr (str_lit ''hello'')))
   \<and> (is_dict d \<longrightarrow>
      (case MongoDBAdapter_write_data reference_mongo a2 c d w2 of
         (r, a, w) \<Rightarrow>
           r = Inr PNone
           \<and> fst (MongoDBAdapter_read_data reference_mongo a c w)
               = Inr (PList (collections w2 (Child (db a2) c) @ [d]))))
   \<and> (is_identifier t \<and> tables w1 t = Some (3, rows) \<longrightarrow>
      (case MySQLAdapter_write_data reference_mysql a1 t (PTuple [x, y, z]) w1 of
         (r, a, w) \<Rightarrow>
           r = Inr PNone
           \<and> fst (MySQLAdapter_read_data reference_mysql a t w)
               = Inr (PList (rows @ [PTuple [x, y, z]]))))"
proof (intro conjI impI)
  assume "unicode_text s"
  then obtain body where "utf8_encode s = Inr body"
    using utf8_encode_total by blast
  from s3_round_trip [OF this, of a3 k w3]
  show "case S3Adapter_write_data reference_s3 a3 k (PStr s) w3 of
         (r, a, w) \<Rightarrow>
           r = Inr PNone \<and> fst (S3Adapter_read_data reference_s3 a k w) = Inr (PStr s)"
    by simp
next
  obtain body where "utf8_encode (str_lit ''hello'') = Inr body"
    using utf8_encode_total [OF unicode_text_hello] by blast
  from s3_round_trip [OF this, of a3 "str_lit ''f.txt''" w3]
  show "case S3Adapter_write_data reference_s3 a3 (str_lit ''f.txt'') (PStr (str_lit ''hello'')) w3 of
         (r, a, w) \<Rightarrow>
           fst (S3Adapter_read_data reference_s3 a (str_lit ''f.txt'') w)
             = Inr (PStr (str_lit ''hello''))"
    by simp
next
  assume "is_dict d"
  then show "case MongoDBAdapter_write_data reference_mongo a2 c d w2 of
         (r, a, w) \<Rightarrow>
           r = Inr PNone
           \<and> fst (MongoDBAdapter_read_data reference_mongo a c w)
               = Inr (PList (collections w2 (Child (db a2) c) @ [d]))"
    by (simp add: reference_mongo_write reference_mongo_read)
next
  assume "is_identifier t \<and> tables w1 t = Some (3, rows)"
  then show "case MySQLAdapter_write_data reference_mysql a1 t (PTuple [x, y, z]) w1 of
         (r, a, w) \<Rightarrow>
           r = Inr PNone
           \<and> fst (MySQLAdapter_read_data reference_mysql a t w)
               = Inr (PList (rows @ [PTuple [x, y, z]]))"
    by (simp add: reference_mysql_write reference_mysql_read bind_three)
qed

theorem write_then_read_round_trip_witness:
  "(case S3Adapter_write_data reference_s3 \<lparr>s3 = Ref 0, bucket = Child (Ref 0) (str_lit ''b'')\<rparr>
          (str_lit ''k'') (PStr [233, 8364, 128512])
          \<lparr>objects = Map.empty, bodies = Map.empty, s3_fresh = 1\<rparr> of
      (r, a, w) \<Rightarrow>
        r = Inr PNone
        \<and> fst (S3Adapter_read_data reference_s3 a (str_lit ''k'') w)
            = Inr (PStr [233, 8364, 128512]))
   \<and> (case MongoDBAdapter_write_data reference_mongo
          \<lparr>client = Ref 0, db = Child (Ref 0) (str_lit ''dbname'')\<rparr> (str_lit ''c'')
          (PDict [(PStr (str_lit ''x''), PInt 1)])
          \<lparr>collections = (\<lambda>h. []), open_cursors = Map.empty, mongo_fresh = 1\<rparr> of
      (r, a, w) \<Rightarrow>
        r = Inr PNone
        \<and> fst (MongoDBAdapter_read_data reference_mongo a (str_lit ''c'') w)
            = Inr (PList [PDict [(PStr (str_lit ''x''), PInt 1)]]))
   \<and> (case MySQLAdapter_write_data reference_mysql \<lparr>connection = Ref 0, cursor = Ref 1\<rparr>
          (str_lit ''t'') (PTuple [PInt 1, PStr (str_lit ''a''), PStr (str_lit ''b'')])
          \<lparr>tables = [str_lit ''t'' \<mapsto> (3, [])], durable = [str_lit ''t'' \<mapsto> (3, [])],
            result_sets = Map.empty, mysql_fresh = 2\<rparr> of
      (r, a, w) \<Rightarrow>
        r = Inr PNone
        \<and> fst (MySQLAdapter_read_data reference_mysql a (str_lit ''t'') w)
            = Inr (PList [PTuple [PInt 1, PStr (str_lit ''a''), PStr (str_lit ''b'')]]))"
  using write_then_read_round_trip [where s = "[233, 8364, 128512]"
      and ?a3.0 = "\<lparr>s3 = Ref 0, bucket = Child (Ref 0) (str_lit ''b'')\<rparr>"
      and k = "str_lit ''k''"
      and ?w3.0 = "\<lparr>objects = Map.empty, bodies = Map.empty, s3_fresh = 1\<rparr>"
      and d = "PDict [(PStr (str_lit ''x''), PInt 1)]"
      and ?a2.0 = "\<lparr>client = Ref 0, db = Child (Ref 0) (str_lit ''dbname'')\<rparr>"
      and c = "str_lit ''c''"
      and ?w2.0 = "\<lparr>collections = (\<lambda>h. []), open_cursors = Map.empty, mongo_fresh = 1\<rparr>"
      and t = "str_lit ''t''"
      and ?w1.0 = "\<lparr>tables = [str_lit ''t'' \<mapsto> (3, [])], durable = [str_lit ''t'' \<mapsto> (3, [])],
            result_sets = Map.empty, mysql_fresh = 2\<rparr>"
      and rows = "[]"
      and ?a1.0 = "\<lparr>connection = Ref 0, cursor = Ref 1\<rparr>"
      and x = "PInt 1" and y = "PStr (str_lit ''a'')" and z = "PStr (str_lit ''b'')"]
  by (simp add: unicode_text_def is_dict_def is_identifier_def identifier_char_def str_lit_def)

section \<open>Repeated writes\<close>

lemma s3_write_idempotent:
  "(case S3Adapter_write_data reference_s3 a3 k (PStr s) w3 of
      (r, a, w) \<Rightarrow> S3Adapter_write_data reference_s3 a k (PStr s) w = (r, a, w))"
  by (cases "py_encode_utf8 (PStr s)") (simp_all add: reference_s3_write)

lemma mysql_write_twice:
  assumes "fst (MySQLAdapter_write_data reference_mysql a1 t d w1) = Inr PNone"
  shows "case MySQLAdapter_write_data reference_mysql a1 t d w1 of
           (r, a, w) \<Rightarrow>
             (case MySQLAdapter_write_data reference_mysql a t d w of
                (r', a', w') \<Rightarrow>
                  r' = Inr PNone \<and> w' \<noteq> w
                  \<and> (\<exists>row. table_rows w t = table_rows w1 t @ [row]
                         \<and> table_rows w' t = table_rows w1 t @ [row, row]))"
proof -
  from assms obtain vs n rows where
    b: "bind_parameters (insert_statement t) (Some d) = Inr vs"
    and i: "is_identifier t" and tb: "tables w1 t = Some (n, rows)" and l: "length vs = n"
    by (auto simp: reference_mysql_write split: sum.splits if_splits option.splits)
  define w where "w = w1\<lparr>tables := (tables w1)(t \<mapsto> (n, rows @ [PTuple vs])),
    durable := (tables w1)(t \<mapsto> (n, rows @ [PTuple vs]))\<rparr>"
  define w' where "w' = w\<lparr>tables := (tables w)(t \<mapsto> (n, rows @ [PTuple vs, PTuple vs])),
    durable := (tables w)(t \<mapsto> (n, rows @ [PTuple vs, PTuple vs]))\<rparr>"
  have first: "MySQLAdapter_write_data reference_mysql a1 t d w1 = (Inr PNone, a1, w)"
    using b i tb l by (simp add: reference_mysql_write w_def)
  have tw: "tables w t = Some (n, rows @ [PTuple vs])" by (simp add: w_def)
  have second: "MySQLAdapter_write_data reference_mysql a1 t d w = (Inr PNone, a1, w')"
    using b i tw l by (simp add: reference_mysql_write w'_def)
  have tw': "tables w' t = Some (n, rows @ [PTuple vs, PTuple vs])" by (simp add: w'_def)
  from tw tw' have "tables w' t \<noteq> tables w t" by simp
  then have "w' \<noteq> w" by auto
  moreover have "table_rows w t = table_rows w1 t @ [PTuple vs]"
    and "table_rows w' t = table_rows w1 t @ [PTuple vs, PTuple vs]"
    by (simp_all add: table_rows_def tb tw tw')
  ultimately show ?thesis by (simp add: first second)
qed

lemma mongo_write_twice:
  assumes "fst (MongoDBAdapter_write_data reference_mongo a2 c d w2) = Inr PNone"
  shows "case MongoDBAdapter_write_data reference_mongo a2 c d w2 of
           (r, a, w) \<Rightarrow>
             (case MongoDBAdapter_write_data reference_mongo a c d w of
                (r', a', w') \<Rightarrow>
                  r' = Inr PNone \<and> w' \<noteq> w
                  \<and> collections w (Child (db a2) c) = collections w2 (Child (db a2) c) @ [d]
                  \<and> collections w' (Child (db a2) c)
                      = collections w2 (Child (db a2) c) @ [d, d])"
proof -
  from assms have dict: "is_dict d"
    by (simp add: reference_mongo_write split: if_splits)
  define w where "w = w2\<lparr>collections := (collections w2)
    (Child (db a2) c := collections w2 (Child (db a2) c) @ [d])\<rparr>"
  define w' where "w' = w\<lparr>collections := (collections w)
    (Child (db a2) c := collections w (Child (db a2) c) @ [d])\<rparr>"
  have first: "MongoDBAdapter_write_data reference_mongo a2 c d w2 = (Inr PNone, a2, w)"
    using dict by (simp add: reference_mongo_write w_def)
  have second: "MongoDBAdapter_write_data reference_mongo a2 c d w = (Inr PNone, a2, w')"
    using dict by (simp add: reference_mongo_write w'_def)
  have cw: "collections w (Child (db a2) c) = collections w2 (Child (db a2) c) @ [d]"
    by (simp add: w_def)
  have cw': "collections w' (Child (db a2) c) = collections w2 (Child (db a2) c) @ [d, d]"
    by (simp add: w'_def w_def)
  from cw cw' have "collections w' (Child (db a2) c) \<noteq> collections w (Child (db a2) c)"
    by simp
  then have "w' \<noteq> w" by auto
  with cw cw' show ?thesis by (simp add: first second)
qed

lemma mysql_write_raises:
  "fst (MySQLAdapter_write_data reference_mysql a1 t d w1) = Inl e \<Longrightarrow>
     MySQLAdapter_write_data reference_mysql a1 t d w1 = (Inl e, a1, w1)"
  by (auto simp: reference_mysql_write split: sum.splits if_splits option.splits)

lemma mongo_write_raises:
  "fst (MongoDBAdapter_write_data reference_mongo a2 c d w2) = Inl e \<Longrightarrow>
     MongoDBAdapter_write_data reference_mongo a2 c d w2 = (Inl e, a2, w2)"
  by (auto simp: reference_mongo_write split: if_splits)

text \<open>
  C4, as the code has it. On the reference stores: for every key and text payload, a
  second identical \<open>write_data\<close> of the object-storage adapter leaves the store, and
  gives the outcome, of the first. For the relational and document adapters, every
  write that returns, when repeated, returns again and leaves a different store that
  holds a second copy of the row or document; a write that raises leaves the store
  unchanged.
\<close>

theorem repeated_write:
  "(case S3Adapter_write_data reference_s3 a3 k (PStr s) w3 of
      (r, a, w) \<Rightarrow> S3Adapter_write_data reference_s3 a k (PStr s) w = (r, a, w))
   \<and> (fst (MySQLAdapter_write_data reference_mysql a1 t d w1) = Inr PNone \<longrightarrow>
        (case MySQLAdapter_write_data reference_mysql a1 t d w1 of
           (r, a, w) \<Rightarrow>
             (case MySQLAdapter_write_data reference_mysql a t d w of
                (r', a', w') \<Rightarrow>
                  r' = Inr PNone \<and> w' \<noteq> w
                  \<and> (\<exists>row. table_rows w t = table_rows w1 t @ [row]
                         \<and> table_rows w' t = table_rows w1 t @ [row, row]))))
   \<and> (fst (MongoDBAdapter_write_data reference_mongo a2 c d w2) = Inr PNone \<longrightarrow>
        (case MongoDBAdapter_write_data reference_mongo a2 c d w2 of
           (r, a, w) \<Rightarrow>
             (case MongoDBAdapter_write_data reference_mongo a c d w of
                (r', a', w') \<Rightarrow>
                  r' = Inr PNone \<and> w' \<noteq> w
                  \<and> collections w (Child (db a2) c) = collections w2 (Child (db a2) c) @ [d]
                  \<and> collections w' (Child (db a2) c)
                      = collections w2 (Child (db a2) c) @ [d, d])))
   \<and> (fst (MySQLAdapter_write_data reference_mysql a1 t d w1) = Inl e \<longrightarrow>
        MySQLAdapter_write_data reference_mysql a1 t d w1 = (Inl e, a1, w1))
   \<and> (fst (MongoDBAdapter_write_data reference_mongo a2 c d w2) = Inl e \<longrightarrow>
        MongoDBAdapter_write_data reference_mongo a2 c d w2 = (Inl e, a2, w2))"
  using s3_write_idempotent [where ?a3.0 = a3 and k = k and s = s and ?w3.0 = w3]
    mysql_write_twice [of a1 t d w1]
    mongo_write_twice [of a2 c d w2] mysql_write_raises [of a1 t d w1 e]
    mongo_write_raises [of a2 c d w2 e]
  by blast

theorem repeated_write_witness:
  "(case S3Adapter_write_data reference_s3 \<lparr>s3 = Ref 0, bucket = Child (Ref 0) (str_lit ''b'')\<rparr>
          (str_lit ''f.txt'') (PStr (str_lit ''hello''))
          \<lparr>objects = Map.empty, bodies = Map.empty, s3_fresh = 1\<rparr> of
      (r, a, w) \<Rightarrow>
        S3Adapter_write_data reference_s3 a (str_lit ''f.txt'') (PStr (str_lit ''hello'')) w
          = (r, a, w))
   \<and> (case MySQLAdapter_write_data reference_mysql \<lparr>connection = Ref 0, cursor = Ref 1\<rparr>
          (str_lit ''t'') (PTuple [PInt 1, PStr (str_lit ''a''), PStr (str_lit ''b'')])
          \<lparr>tables = [str_lit ''t'' \<mapsto> (3, [])], durable = [str_lit ''t'' \<mapsto> (3, [])],
            result_sets = Map.empty, mysql_fresh = 2\<rparr> of
      (r, a, w) \<Rightarrow>
        (case MySQLAdapter_write_data reference_mysql a (str_lit ''t'')
                (PTuple [PInt 1, PStr (str_lit ''a''), PStr (str_lit ''b'')]) w of
           (r', a', w') \<Rightarrow>
             r' = Inr PNone \<and> w' \<noteq> w
             \<and> table_rows w' (str_lit ''t'')
                 = [PTuple [PInt 1, PStr (str_lit ''a''), PStr (str_lit ''b'')],
                    PTuple [PInt 1, PStr (str_lit ''a''), PStr (str_lit ''b'')]]))
   \<and> (case MongoDBAdapter_write_data reference_mongo
          \<lparr>client = Ref 0, db = Child (Ref 0) (str_lit ''dbname'')\<rparr> (str_lit ''c'')
          (PDict [(PStr (str_lit ''x''), PInt 1)])
          \<lparr>collections = (\<lambda>h. []), open_cursors = Map.empty, mongo_fresh = 1\<rparr> of
      (r, a, w) \<Rightarrow>
        (case MongoDBAdapter_write_data reference_mongo a (str_lit ''c'')
                (PDict [(PStr (str_lit ''x''), PInt 1)]) w of
           (r', a', w') \<Rightarrow>
             r' = Inr PNone \<and> w' \<noteq> w
             \<and> collections w' (Child (Child (Ref 0) (str_lit ''dbname'')) (str_lit ''c''))
                 = [PDict [(PStr (str_lit ''x''), PInt 1)],
                    PDict [(PStr (str_lit ''x''), PInt 1)]]))
   \<and> MySQLAdapter_write_data reference_mysql \<lparr>connection = Ref 0, cursor = Ref 1\<rparr>
        (str_lit ''t'') (PDict [(PStr (str_lit ''x''), PInt 1)])
        \<lparr>tables = [str_lit ''t'' \<mapsto> (3, [])], durable = [str_lit ''t'' \<mapsto> (3, [])],
          result_sets = Map.empty, mysql_fresh = 2\<rparr>
      = (Inl (StoreError ''ProgrammingError''), \<lparr>connection = Ref 0, cursor = Ref 1\<rparr>,
         \<lparr>tables = [str_lit ''t'' \<mapsto> (3, [])], durable = [str_lit ''t'' \<mapsto> (3, [])],
           result_sets = Map.empty, mysql_fresh = 2\<rparr>)
   \<and> MongoDBAdapter_write_data reference_mongo
        \<lparr>client = Ref 0, db = Child (Ref 0) (str_lit ''dbname'')\<rparr> (str_lit ''c'')
        (PTuple [PInt 1, PStr (str_lit ''a''), PStr (str_lit ''b'')])
        \<lparr>collections = (\<lambda>h. []), open_cursors = Map.empty, mongo_fresh = 1\<rparr>
      = (Inl TypeError, \<lparr>client = Ref 0, db = Child (Ref 0) (str_lit ''dbname'')\<rparr>,
         \<lparr>collections = (\<lambda>h. []), open_cursors = Map.empty, mongo_fresh = 1\<rparr>)"
proof -
  let ?a1 = "\<lparr>connection = Ref 0, cursor = Ref 1\<rparr>"
  let ?w1 = "\<lparr>tables = [str_lit ''t'' \<mapsto> (3, [])], durable = [str_lit ''t'' \<mapsto> (3, [])],
    result_sets = Map.empty, mysql_fresh = 2\<rparr>"
  let ?a2 = "\<lparr>client = Ref 0, db = Child (Ref 0) (str_lit ''dbname'')\<rparr>"
  let ?w2 = "\<lparr>collections = (\<lambda>h. []), open_cursors = Map.empty, mongo_fresh = 1\<rparr>"
  let ?a3 = "\<lparr>s3 = Ref 0, bucket = Child (Ref 0) (str_lit ''b'')\<rparr>"
  let ?w3 = "\<lparr>objects = Map.empty, bodies = Map.empty, s3_fresh = 1\<rparr>"
  let ?row = "PTuple [PInt 1, PStr (str_lit ''a''), PStr (str_lit ''b'')]"
  let ?doc = "PDict [(PStr (str_lit ''x''), PInt 1)]"
  have t: "is_identifier (str_lit ''t'')"
    by (simp add: is_identifier_def identifier_char_def str_lit_def)
  have ok: "fst (MySQLAdapter_write_data reference_mysql ?a1 (str_lit ''t'') ?row ?w1) = Inr PNone"
    by (simp add: reference_mysql_write bind_three [OF t] t)
  have bad: "fst (MySQLAdapter_write_data reference_mysql ?a1 (str_lit ''t'') ?doc ?w1)
      = Inl (StoreError ''ProgrammingError'')"
    by (simp add: reference_mysql_write bind_parameters_def)
  have mok: "fst (MongoDBAdapter_write_data reference_mongo ?a2 (str_lit ''c'') ?doc ?w2)
      = Inr PNone"
    by (simp add: reference_mongo_write is_dict_def)
  have mbad: "fst (MongoDBAdapter_write_data reference_mongo ?a2 (str_lit ''c'') ?row ?w2)
      = Inl TypeError"
    by (simp add: reference_mongo_write is_dict_def)
  note A = repeated_write [where ?a3.0 = ?a3 and k = "str_lit ''f.txt''" and s = "str_lit ''hello''"
      and ?w3.0 = ?w3 and ?a1.0 = ?a1 and t = "str_lit ''t''" and d = ?row and ?w1.0 = ?w1
      and ?a2.0 = ?a2 and c = "str_lit ''c''" and ?w2.0 = ?w2 and e = TypeError]
  note B = repeated_write [where ?a3.0 = ?a3 and k = "str_lit ''f.txt''" and s = "str_lit ''hello''"
      and ?w3.0 = ?w3 and ?a1.0 = ?a1 and t = "str_lit ''t''" and d = ?doc and ?w1.0 = ?w1
      and ?a2.0 = ?a2 and c = "str_lit ''c''" and ?w2.0 = ?w2
      and e = "StoreError ''ProgrammingError''"]
  have A1: "case S3Adapter_write_data reference_s3 ?a3 (str_lit ''f.txt'')
                 (PStr (str_lit ''hello'')) ?w3 of
      (r, a, w) \<Rightarrow>
        S3Adapter_write_data reference_s3 a (str_lit ''f.txt'') (PStr (str_lit ''hello'')) w
          = (r, a, w)"
    using A by (rule conjunct1)
  have A2: "case MySQLAdapter_write_data reference_mysql ?a1 (str_lit ''t'') ?row ?w1 of
      (r, a, w) \<Rightarrow>
        (case MySQLAdapter_write_data reference_mysql a (str_lit ''t'') ?row w of
           (r', a', w') \<Rightarrow>
             r' = Inr PNone \<and> w' \<noteq> w
             \<and> (\<exists>row. table_rows w (str_lit ''t'') = table_rows ?w1 (str_lit ''t'') @ [row]
                    \<and> table_rows w' (str_lit ''t'')
                        = table_rows ?w1 (str_lit ''t'') @ [row, row]))"
    by (rule A [THEN conjunct2, THEN conjunct1, THEN mp, OF ok])
  have A5: "MongoDBAdapter_write_data reference_mongo ?a2 (str_lit ''c'') ?row ?w2
      = (Inl TypeError, ?a2, ?w2)"
    by (rule A [THEN conjunct2, THEN conjunct2, THEN conjunct2, THEN conjunct2, THEN mp,
        OF mbad])
  have B3: "case MongoDBAdapter_write_data reference_mongo ?a2 (str_lit ''c'') ?doc ?w2 of
      (r, a, w) \<Rightarrow>
        (case MongoDBAdapter_write_data reference_mongo a (str_lit ''c'') ?doc w of
           (r', a', w') \<Rightarrow>
             r' = Inr PNone \<and> w' \<noteq> w
             \<and> collections w (Child (db ?a2) (str_lit ''c''))
                 = collections ?w2 (Child (db ?a2) (str_lit ''c'')) @ [?doc]
             \<and> collections w' (Child (db ?a2) (str_lit ''c''))
                 = collections ?w2 (Child (db ?a2) (str_lit ''c'')) @ [?doc, ?doc])"
    by (rule B [THEN conjunct2, THEN conjunct2, THEN conjunct1, THEN mp, OF mok])
  have B4: "MySQLAdapter_write_data reference_mysql ?a1 (str_lit ''t'') ?doc ?w1
      = (Inl (StoreError ''ProgrammingError''), ?a1, ?w1)"
    by (rule B [THEN conjunct2, THEN conjunct2, THEN conjunct2, THEN conjunct1, THEN mp,
        OF bad])
  have A2': "case MySQLAdapter_write_data reference_mysql ?a1 (str_lit ''t'') ?row ?w1 of
      (r, a, w) \<Rightarrow>
        (case MySQLAdapter_write_data reference_mysql a (str_lit ''t'') ?row w of
           (r', a', w') \<Rightarrow>
             r' = Inr PNone \<and> w' \<noteq> w \<and> table_rows w' (str_lit ''t'') = [?row, ?row])"
    using A2 by (simp add: reference_mysql_write bind_three [OF t] t table_rows_def)
  have B3': "case MongoDBAdapter_write_data reference_mongo ?a2 (str_lit ''c'') ?doc ?w2 of
      (r, a, w) \<Rightarrow>
        (case MongoDBAdapter_write_data reference_mongo a (str_lit ''c'') ?doc w of
           (r', a', w') \<Rightarrow>
             r' = Inr PNone \<and> w' \<noteq> w
             \<and> collections w' (Child (Child (Ref 0) (str_lit ''dbname'')) (str_lit ''c''))
                 = [?doc, ?doc])"
    using B3 by (simp add: reference_mongo_write is_dict_def)
  from A1 A2' B3' B4 A5 show ?thesis by (intro conjI)
qed

text \<open>
  The claim as stated, that every repeated write of the relational and document
  adapters adds a duplicate, fails for the writes that raise: a 2-tuple for the
  three placeholders, and a payload that is no document. Repeated, they leave the
  stores as they were, with no row and no document.
\<close>

theorem repeated_write_counterexample:
  "(case MySQLAdapter_write_data reference_mysql \<lparr>connection = Ref 0, cursor = Ref 1\<rparr>
          (str_lit ''t'') (PTuple [PInt 1, PInt 2])
          \<lparr>tables = [str_lit ''t'' \<mapsto> (3, [])], durable = [str_lit ''t'' \<mapsto> (3, [])],
            result_sets = Map.empty, mysql_fresh = 2\<rparr> of
      (r, a, w) \<Rightarrow>
        (case MySQLAdapter_write_data reference_mysql a (str_lit ''t'') (PTuple [PInt 1, PInt 2]) w of
           (r', a', w') \<Rightarrow>
             r = Inl (StoreError ''ProgrammingError'') \<and> r' = r \<and> w' = w
             \<and> table_rows w' (str_lit ''t'') = []))
   \<and> (case MongoDBAdapter_write_data reference_mongo
          \<lparr>client = Ref 0, db = Child (Ref 0) (str_lit ''dbname'')\<rparr> (str_lit ''c'') (PInt 5)
          \<lparr>collections = (\<lambda>h. []), open_cursors = Map.empty, mongo_fresh = 1\<rparr> of
      (r, a, w) \<Rightarrow>
        (case MongoDBAdapter_write_data reference_mongo a (str_lit ''c'') (PInt 5) w of
           (r', a', w') \<Rightarrow>
             r = Inl TypeError \<and> r' = r \<and> w' = w
             \<and> collections w' (Child (Child (Ref 0) (str_lit ''dbname'')) (str_lit ''c'')) = []))"
proof -
  have "bind_parameters (insert_statement (str_lit ''t'')) (Some (PTuple [PInt 1, PInt 2]))
      = Inl (StoreError ''ProgrammingError'')"
    by (simp add: bind_parameters_def count_placeholders_insert_statement)
  then show ?thesis
    by (simp add: reference_mysql_write reference_mongo_write is_dict_def table_rows_def)
qed

end
